theory Spec2Isabelle
  imports Complex_Main "HOL-Library.Sublist" "HOL-Library.Log_Nat"
begin

section \<open>JavaScript strings and values\<close>

text \<open>
  The backend is a single JavaScript file, \<^verbatim>\<open>server.js\<close>. Its strings are modelled as
  \<^typ>\<open>string\<close> over ASCII: case conversion touches the letters A to Z only, and the
  white space of \<^verbatim>\<open>trim\<close> and \<^verbatim>\<open>\s\<close> is the ASCII white space. A value that may be
  \<^verbatim>\<open>null\<close> or \<^verbatim>\<open>undefined\<close> is an \<^typ>\<open>'a option\<close>.
\<close>

definition lower_char :: "char \<Rightarrow> char" where
  "lower_char c =
     (case map_of (zip ''ABCDEFGHIJKLMNOPQRSTUVWXYZ'' ''abcdefghijklmnopqrstuvwxyz'') c of
        Some d \<Rightarrow> d
      | None \<Rightarrow> c)"

text \<open>\<^verbatim>\<open>s.toLowerCase()\<close>\<close>

definition toLowerCase :: "string \<Rightarrow> string" where
  "toLowerCase s = map lower_char s"

definition is_space :: "char \<Rightarrow> bool" where
  "is_space c = (c \<in> set [CHR '' '', CHR 0x09, CHR 0x0A, CHR 0x0B, CHR 0x0C, CHR 0x0D])"

definition is_lower_letter :: "char \<Rightarrow> bool" where
  "is_lower_letter c = (c \<in> set ''abcdefghijklmnopqrstuvwxyz'')"

definition is_digit :: "char \<Rightarrow> bool" where
  "is_digit c = (c \<in> set ''0123456789'')"

text \<open>\<^verbatim>\<open>s.trim()\<close>\<close>

definition trim :: "string \<Rightarrow> string" where
  "trim s = rev (dropWhile is_space (rev (dropWhile is_space s)))"

text \<open>\<^verbatim>\<open>s.replace(/\s+/g, ' ')\<close>: every maximal run of white space becomes one blank.\<close>

fun collapse_spaces :: "string \<Rightarrow> string" where
  "collapse_spaces [] = []"
| "collapse_spaces [c] = [if is_space c then CHR '' '' else c]"
| "collapse_spaces (c # d # cs) =
     (if is_space c then
        (if is_space d then collapse_spaces (d # cs) else CHR '' '' # collapse_spaces (d # cs))
      else c # collapse_spaces (d # cs))"

text \<open>\<^verbatim>\<open>s.split(' ')\<close>: the pieces between single blanks; the empty string gives one empty piece.\<close>

fun split_blank :: "string \<Rightarrow> string list" where
  "split_blank [] = [[]]"
| "split_blank (c # cs) =
     (if c = CHR '' '' then [] # split_blank cs
      else (case split_blank cs of [] \<Rightarrow> [[c]] | p # ps \<Rightarrow> (c # p) # ps))"

text \<open>\<^verbatim>\<open>s.includes(sub)\<close>\<close>

fun includes_str :: "string \<Rightarrow> string \<Rightarrow> bool" where
  "includes_str [] sub = (sub = [])"
| "includes_str (c # cs) sub = (prefix sub (c # cs) \<or> includes_str cs sub)"

text \<open>\<^verbatim>\<open>[...new Set(xs)]\<close>: the distinct elements in the order of their first occurrence.\<close>

definition set_list :: "'a list \<Rightarrow> 'a list" where
  "set_list xs = foldl (\<lambda>acc x. if x \<in> set acc then acc else acc @ [x]) [] xs"

text \<open>Truthiness of a string that may be absent: \<^verbatim>\<open>null\<close>, \<^verbatim>\<open>undefined\<close> and \<^verbatim>\<open>''\<close> are falsy.\<close>

definition truthy :: "string option \<Rightarrow> bool" where
  "truthy v = (case v of None \<Rightarrow> False | Some s \<Rightarrow> s \<noteq> [])"

text \<open>\<^verbatim>\<open>a || b\<close> on strings that may be absent, \<^verbatim>\<open>xs || []\<close> on arrays, \<^verbatim>\<open>n || 0\<close> on numbers.\<close>

definition or_str :: "string option \<Rightarrow> string option \<Rightarrow> string option" where
  "or_str a b = (if truthy a then a else b)"

definition or_empty :: "'a list option \<Rightarrow> 'a list" where
  "or_empty v = (case v of None \<Rightarrow> [] | Some xs \<Rightarrow> xs)"

definition or_zero :: "'a::zero option \<Rightarrow> 'a" where
  "or_zero v = (case v of None \<Rightarrow> 0 | Some n \<Rightarrow> n)"

text \<open>
  What a handler's \<^verbatim>\<open>try\<close> block can catch: a \<^verbatim>\<open>TypeError\<close> of the
  language, and the errors of the store that the handlers throw.
\<close>

datatype failure = TypeError | UniqueViolation | StoreFailure

subsection \<open>Numbers\<close>

text \<open>
  A JavaScript number is an IEEE 754 double. A double is modelled as the rational it
  denotes, and an operation rounds its exact result to the nearest double, ties to the
  even significand (53 bits). Overflow and subnormal results are not modelled: the scores
  below stay between \<open>2\<^sup>-\<^sup>1\<^sup>0\<^sup>0\<close> and the number of token pairs.
\<close>

definition pow2 :: "int \<Rightarrow> rat" where
  "pow2 k = (if 0 \<le> k then 2 ^ nat k else 1 / 2 ^ nat (- k))"

text \<open>The exponent of a positive rational: the greatest \<open>k\<close> with \<open>2\<^sup>k \<le> x\<close>.\<close>

definition binade :: "rat \<Rightarrow> int" where
  "binade x =
     (let (p, q) = quotient_of x; k = bitlen p - bitlen q
      in if pow2 k \<le> x then k else k - 1)"

definition round_even :: "rat \<Rightarrow> int" where
  "round_even q =
     (let n = \<lfloor>q\<rfloor>; r = q - of_int n
      in if r < 1 / 2 then n else if 1 / 2 < r then n + 1 else if even n then n else n + 1)"

definition to_double :: "rat \<Rightarrow> rat" where
  "to_double x =
     (if x = 0 then 0
      else (let a = \<bar>x\<bar>; u = pow2 (binade a - 52)
            in sgn x * (of_int (round_even (a / u)) * u)))"

text \<open>\<^verbatim>\<open>a + b\<close> and \<^verbatim>\<open>a / b\<close> on doubles.\<close>

definition fadd :: "rat \<Rightarrow> rat \<Rightarrow> rat" where
  "fadd a b = to_double (a + b)"

definition fdiv :: "rat \<Rightarrow> rat \<Rightarrow> rat" where
  "fdiv a b = to_double (a / b)"

section \<open>Helpers\<close>

subsection \<open>Classification of a contact\<close>

datatype priority = Low | Medium | High | Urgent

text \<open>
  The priority levels are the strings \<^verbatim>\<open>'low'\<close>, \<^verbatim>\<open>'medium'\<close>, \<^verbatim>\<open>'high'\<close> and
  \<^verbatim>\<open>'urgent'\<close>; \<open>determinePriority\<close> is the only producer of a priority in the file.
\<close>

definition priority_rank :: "priority \<Rightarrow> nat" where
  "priority_rank p = (case p of Low \<Rightarrow> 0 | Medium \<Rightarrow> 1 | High \<Rightarrow> 2 | Urgent \<Rightarrow> 3)"

definition determinePriority :: "string \<Rightarrow> string \<Rightarrow> priority" where
  "determinePriority purpose message =
     (let msg = toLowerCase message in
      if includes_str msg ''urgent'' \<or> includes_str msg ''asap'' \<or> includes_str msg ''immediately''
        then Urgent
      else if purpose = ''Returns & Refunds'' \<or> includes_str msg ''refund'' \<or> includes_str msg ''cancel''
        then High
      else if purpose = ''Billing'' \<or> purpose = ''Shipping & Delivery'' then High
      else if purpose = ''Wholesale'' \<or> purpose = ''Partnership'' then Medium
      else Medium)"

definition purposeTags :: "(string \<times> string list) list" where
  "purposeTags =
     [(''Billing'', [''Billing inquiry'']), (''Tech Support'', [''Technical issue'']),
      (''Product Questions'', [''Product inquiry'']), (''Shipping & Delivery'', [''Shipping issue'']),
      (''Returns & Refunds'', [''Refund request'']), (''Wholesale'', [''Wholesale inquiry'', ''Bulk order'']),
      (''Partnership'', [''Partnership inquiry'']), (''Press & Media'', [''Press inquiry'']),
      (''Other'', [''General inquiry''])]"

text \<open>
  The table \<open>purposeTags\<close> is an object literal, so \<^verbatim>\<open>purposeTags[purpose]\<close> also
  finds the properties that every object inherits from \<^verbatim>\<open>Object.prototype\<close>. Each of
  them is truthy and none is iterable: for such a purpose
  \<^verbatim>\<open>tags.push(...purposeTags[purpose])\<close> throws a \<^verbatim>\<open>TypeError\<close>.
\<close>

definition inherited_keys :: "string list" where
  "inherited_keys =
     [''constructor'', ''__defineGetter__'', ''__defineSetter__'', ''hasOwnProperty'',
      ''__lookupGetter__'', ''__lookupSetter__'', ''isPrototypeOf'', ''propertyIsEnumerable'',
      ''toString'', ''valueOf'', ''__proto__'', ''toLocaleString'']"

text \<open>One \<^verbatim>\<open>if (msg.includes(..) || ..) tags.push(tag)\<close> line of \<open>generateAutoTags\<close>.\<close>

definition push_if :: "string \<Rightarrow> string list \<Rightarrow> string \<Rightarrow> string list \<Rightarrow> string list" where
  "push_if msg keys tag tags = (if list_ex (includes_str msg) keys then tags @ [tag] else tags)"

definition generateAutoTags :: "string \<Rightarrow> string \<Rightarrow> failure + string list" where
  "generateAutoTags purpose message =
     (let msg = toLowerCase message in
      if map_of purposeTags purpose = None \<and> purpose \<in> set inherited_keys then Inl TypeError
      else
        (let t0 = (case map_of purposeTags purpose of None \<Rightarrow> [] | Some ts \<Rightarrow> ts);
             t1 = push_if msg [''cancel'', ''subscription''] ''Subscription issue'' t0;
             t2 = push_if msg [''refund'', ''money back''] ''Refund request'' t1;
             t3 = push_if msg [''tracking'', ''where is my order''] ''Tracking question'' t2;
             t4 = push_if msg [''flavor'', ''taste''] ''Flavor feedback'' t3;
             t5 = push_if msg [''bulk'', ''event'', ''wholesale''] ''Bulk opportunity'' t4;
             t6 = push_if msg [''love'', ''amazing'', ''obsessed''] ''Positive sentiment'' t5;
             t7 = push_if msg [''disappoint'', ''not working'', ''doesn't work''] ''At risk'' t6;
             t8 = push_if msg [''gift''] ''Gift buyer'' t7;
             t9 = push_if msg [''how long'', ''dosage'', ''how much''] ''Dosage question'' t8;
             t10 = push_if msg [''new flavor'', ''mango'', ''lemon''] ''New flavor interest'' t9
         in Inr (set_list t10)))"

text \<open>
  \<open>generateSummary\<close> and the subject line of a new ticket are free text that no decision
  reads; the summary keeps its shape, the subject its first 60 characters.
\<close>

definition generateSummary :: "string \<Rightarrow> string \<Rightarrow> string \<Rightarrow> string" where
  "generateSummary purpose message name =
     name @ '' submitted a '' @ toLowerCase purpose @ '' inquiry via the contact form.''"

subsection \<open>Fuzzy name matching\<close>

text \<open>\<^verbatim>\<open>name.toLowerCase().trim().replace(/[^a-z ]/g, '').replace(/\s+/g, ' ')\<close>\<close>

definition normalizeName :: "string \<Rightarrow> string" where
  "normalizeName name =
     collapse_spaces (filter (\<lambda>c. is_lower_letter c \<or> c = CHR '' '') (trim (toLowerCase name)))"

text \<open>
  The inner loop \<^verbatim>\<open>for (i < shorter.length) if (shorter[i] !== longer[i]) diff++\<close>: the
  positions, over the length of the shorter token, at which the two tokens differ.
\<close>

definition aligned_diff :: "string \<Rightarrow> string \<Rightarrow> nat" where
  "aligned_diff shorter longer = length (filter (\<lambda>(x, y). x \<noteq> y) (zip shorter longer))"

text \<open>
  What one pair of tokens adds to \<^verbatim>\<open>matches\<close>: 1 (\<^verbatim>\<open>matches++\<close>), the double
  0.8 (\<^verbatim>\<open>matches += 0.8\<close>) or nothing.
\<close>

definition pair_award :: "string \<Rightarrow> string \<Rightarrow> rat" where
  "pair_award pa pb =
     (if pa = pb \<and> length pa > 1 then 1
      else if length pa > 3 \<and> length pb > 3 \<and> \<bar>int (length pa) - int (length pb)\<bar> \<le> 1 then
        (let shorter = (if length pa \<le> length pb then pa else pb);
             longer = (if length pa > length pb then pa else pb)
         in if aligned_diff shorter longer \<le> 1 then to_double (8 / 10) else 0)
      else 0)"

definition nameSimilarity :: "string \<Rightarrow> string \<Rightarrow> rat" where
  "nameSimilarity a b =
     (let na = normalizeName a; nb = normalizeName b in
      if na = nb then 1
      else
        (let partsA = split_blank na; partsB = split_blank nb;
             matches = foldl (\<lambda>m pa. foldl (\<lambda>m pb. fadd m (pair_award pa pb)) m partsB) 0 partsA;
             maxParts = max (length partsA) (length partsB)
         in if maxParts > 0 then fdiv matches (of_nat maxParts) else 0))"

section \<open>The store\<close>

text \<open>
  The tables of the Supabase project that the handlers read and write. A table is the
  list of its rows in scan order; a column that may be \<^verbatim>\<open>null\<close> is an option. Row
  identifiers are numbers handed out by the store, never reused; a time stamp is a number
  of milliseconds. Field names carry the table's initial, since the tables share column
  names.
\<close>

datatype status = Open | Pending | Resolved | Closed

datatype sender = FromCustomer | FromAgent | FromSystem

record customer =
  c_id :: nat
  c_name :: string
  c_email :: string
  c_phone :: "string option"
  c_alt_emails :: "string list option"
  c_tags :: "string list option"
  c_ticket_count :: int
  c_possible_duplicate_of :: "nat option"
  c_shopify_customer_id :: "string option"
  c_shopify_order_count :: "int option"
  c_shopify_ltv :: "rat option"
  c_updated_at :: int

record ticket =
  t_id :: nat
  t_ticket_id :: string
  t_customer_id :: nat
  t_subject :: string
  t_status :: status
  t_priority :: priority
  t_channel :: string
  t_ai_tags :: "string list option"
  t_ai_summary :: string
  t_purpose :: string
  t_updated_at :: int

text \<open>\<^verbatim>\<open>submitted_at || new Date().toISOString()\<close>: the form's own stamp, or the clock.\<close>

datatype stamp = Given string | Clock int

record metadata =
  md_purpose :: "string option"
  md_phone :: "string option"
  md_attachment :: "string option"
  md_submitted_at :: stamp
  md_threaded :: bool
  md_reopened :: bool

record message =
  m_ticket_id :: nat
  m_sender_type :: sender
  m_sender_name :: string
  m_content :: string
  m_metadata :: "metadata option"

record store =
  customers :: "customer list"
  tickets :: "ticket list"
  messages :: "message list"
  next_customer_id :: nat
  next_ticket_id :: nat

text \<open>
  What a handler takes from outside the store: the clock, the draw of
  \<^verbatim>\<open>Math.floor(Math.random() * 9000)\<close>, which store calls fail, and what other requests
  do to the store between this request's look-ups and its insert of a customer (every
  \<^verbatim>\<open>await\<close> lets other requests run; this is the one point a property below depends
  on). The supabase client returns a failed call's error in its result and does not
  throw; a failed call leaves the store as it was.
\<close>

datatype store_call = InsertTicket | MoveTickets | UpdatePrimary | ClearDuplicates | DeleteSecondary

record env =
  now :: int
  rnd :: nat
  fails :: "store_call \<Rightarrow> bool"
  concurrent :: "store \<Rightarrow> store"

text \<open>A request served alone by a store that answers every call.\<close>

definition quiet :: "int \<Rightarrow> nat \<Rightarrow> env" where
  "quiet n r = \<lparr>now = n, rnd = r, fails = (\<lambda>_. False), concurrent = (\<lambda>s. s)\<rparr>"

text \<open>\<^verbatim>\<open>.select('*').eq(col, v).single()\<close>: the row when exactly one matches, else no data.\<close>

definition single :: "'a list \<Rightarrow> 'a option" where
  "single rows = (case rows of [r] \<Rightarrow> Some r | _ \<Rightarrow> None)"

definition customer_by_email :: "store \<Rightarrow> string \<Rightarrow> customer option" where
  "customer_by_email s e = single (filter (\<lambda>c. c_email c = e) (customers s))"

definition customer_by_id :: "store \<Rightarrow> nat \<Rightarrow> customer option" where
  "customer_by_id s i = single (filter (\<lambda>c. c_id c = i) (customers s))"

text \<open>\<^verbatim>\<open>.from('customers').update(updates).eq('id', i)\<close>\<close>

definition update_customer :: "nat \<Rightarrow> (customer \<Rightarrow> customer) \<Rightarrow> store \<Rightarrow> store" where
  "update_customer i f s = s\<lparr>customers := map (\<lambda>c. if c_id c = i then f c else c) (customers s)\<rparr>"

text \<open>\<^verbatim>\<open>.from('tickets').update(updates).eq('id', i)\<close>\<close>

definition update_ticket :: "nat \<Rightarrow> (ticket \<Rightarrow> ticket) \<Rightarrow> store \<Rightarrow> store" where
  "update_ticket i f s = s\<lparr>tickets := map (\<lambda>t. if t_id t = i then f t else t) (tickets s)\<rparr>"

definition insert_message :: "message \<Rightarrow> store \<Rightarrow> store" where
  "insert_message m s = s\<lparr>messages := messages s @ [m]\<rparr>"

text \<open>
  Modelled from the spec: the table definitions are not among the sources. The spec has
  the store enforce a uniqueness constraint on the primary email, so an insert of a
  customer whose email some row already carries is refused. The columns that the insert
  does not name take the table's defaults: no alternate emails, no commerce data, the
  time of the insert.

  \<^verbatim>\<open>.from('customers').insert({name, email, phone, ticket_count: 1, tags: [],\<close>
  \<^verbatim>\<open>possible_duplicate_of}).select().single()\<close>
\<close>

definition insert_customer ::
  "int \<Rightarrow> store \<Rightarrow> string \<Rightarrow> string \<Rightarrow> string option \<Rightarrow> nat option \<Rightarrow> (failure + customer) \<times> store" where
  "insert_customer n s nm em ph dup =
     (if list_ex (\<lambda>c. c_email c = em) (customers s) then (Inl UniqueViolation, s)
      else
        (let row = \<lparr>c_id = next_customer_id s, c_name = nm, c_email = em, c_phone = ph,
                    c_alt_emails = None, c_tags = Some [], c_ticket_count = 1,
                    c_possible_duplicate_of = dup, c_shopify_customer_id = None,
                    c_shopify_order_count = None, c_shopify_ltv = None, c_updated_at = n\<rparr>
         in (Inr row, s\<lparr>customers := customers s @ [row],
                        next_customer_id := Suc (next_customer_id s)\<rparr>)))"

text \<open>
  \<^verbatim>\<open>.order('updated_at', { ascending: false }).limit(1)\<close>: the row updated last; among
  rows updated at the same time, the first in scan order.
\<close>

fun latest :: "ticket list \<Rightarrow> ticket option" where
  "latest [] = None"
| "latest (t # ts) =
     (case latest ts of
        None \<Rightarrow> Some t
      | Some u \<Rightarrow> if t_updated_at t < t_updated_at u then Some u else Some t)"

section \<open>Find or create the customer of a contact\<close>

record resolution =
  res_customer :: customer
  matchType :: string
  possibleMatch :: "customer option"
  isNew :: bool

text \<open>\<^verbatim>\<open>phone.replace(/\D/g, '')\<close> and \<^verbatim>\<open>cleanPhone.slice(-10)\<close>\<close>

definition digits_only :: "string \<Rightarrow> string" where
  "digits_only p = filter is_digit p"

definition last10 :: "string \<Rightarrow> string" where
  "last10 d = drop (length d - 10) d"

text \<open>
  The predicate of \<^verbatim>\<open>allCustomers.find\<close>, on the rows that
  \<^verbatim>\<open>.not('phone', 'is', null)\<close> lets through.
\<close>

definition phone_matches :: "string \<Rightarrow> customer \<Rightarrow> bool" where
  "phone_matches phoneSuffix c =
     (case c_phone c of None \<Rightarrow> False | Some cp \<Rightarrow> last10 (digits_only cp) = phoneSuffix)"

definition phoneMatch :: "store \<Rightarrow> string option \<Rightarrow> customer option" where
  "phoneMatch s phone =
     (case phone of
        None \<Rightarrow> None
      | Some p \<Rightarrow>
          if p = [] then None
          else
            (let cleanPhone = digits_only p in
             if length cleanPhone \<ge> 10
             then List.find (phone_matches (last10 cleanPhone)) (customers s)
             else None))"

text \<open>
  The loop over \<^verbatim>\<open>allCustomers\<close> that keeps the best score above the double 0.7.
\<close>

definition bestMatch :: "customer list \<Rightarrow> string \<Rightarrow> customer option" where
  "bestMatch allCustomers fullName =
     fst (foldl
       (\<lambda>(best, bestScore) c.
          (let score = nameSimilarity fullName (c_name c) in
           if score > to_double (7 / 10) \<and> score > bestScore then (Some c, score)
           else (best, bestScore)))
       (None, 0) allCustomers)"

definition fuzzyMatch :: "store \<Rightarrow> string \<Rightarrow> customer option" where
  "fuzzyMatch s fullName =
     (if length (split_blank (trim fullName)) \<ge> 2 then bestMatch (customers s) fullName else None)"

text \<open>
  The two create paths: the insert reaches the store as the concurrent requests have
  left it, and \<^verbatim>\<open>if (error) throw error\<close> hands its error to the caller.
\<close>

definition create_customer ::
  "env \<Rightarrow> store \<Rightarrow> string \<Rightarrow> string option \<Rightarrow> string \<Rightarrow> customer option \<Rightarrow> (failure + resolution) \<times> store" where
  "create_customer e s email phone fullName candidate =
     (case insert_customer (now e) (concurrent e s) fullName (toLowerCase email)
             (if truthy phone then phone else None) (map_option c_id candidate) of
        (Inl err, s') \<Rightarrow> (Inl err, s')
      | (Inr newCustomer, s') \<Rightarrow>
          (Inr \<lparr>res_customer = newCustomer,
                matchType = (if candidate = None then ''new'' else ''possible_duplicate''),
                possibleMatch = candidate, isNew = True\<rparr>, s'))"

text \<open>
  The \<^verbatim>\<open>updates\<close> objects of the first two tiers, applied to a row; they are built
  from the row as it was fetched (\<open>byEmail\<close>, \<open>pm\<close>).
\<close>

definition email_updates :: "env \<Rightarrow> customer \<Rightarrow> string option \<Rightarrow> string \<Rightarrow> customer \<Rightarrow> customer" where
  "email_updates e byEmail phone fullName c =
     c\<lparr>c_updated_at := now e,
       c_ticket_count := c_ticket_count byEmail + 1,
       c_name := (if fullName \<noteq> [] \<and> fullName \<noteq> c_name byEmail then fullName else c_name c),
       c_phone := (if truthy phone \<and> \<not> truthy (c_phone byEmail) then phone else c_phone c)\<rparr>"

definition phone_updates :: "env \<Rightarrow> customer \<Rightarrow> string \<Rightarrow> customer \<Rightarrow> customer" where
  "phone_updates e pm email c =
     c\<lparr>c_updated_at := now e,
       c_ticket_count := c_ticket_count pm + 1,
       c_alt_emails :=
         (case c_alt_emails pm of
            None \<Rightarrow> Some [toLowerCase email]
          | Some alts \<Rightarrow>
              if toLowerCase email \<in> set alts then c_alt_emails c
              else Some (alts @ [toLowerCase email]))\<rparr>"

definition findOrCreateCustomer ::
  "env \<Rightarrow> store \<Rightarrow> string \<Rightarrow> string option \<Rightarrow> string \<Rightarrow> (failure + resolution) \<times> store" where
  "findOrCreateCustomer e s email phone fullName =
     (case customer_by_email s (toLowerCase email) of
        Some byEmail \<Rightarrow>
          (Inr \<lparr>res_customer = byEmail, matchType = ''email'', possibleMatch = None, isNew = False\<rparr>,
           update_customer (c_id byEmail) (email_updates e byEmail phone fullName) s)
      | None \<Rightarrow>
          (case phoneMatch s phone of
             Some pm \<Rightarrow>
               (Inr \<lparr>res_customer = pm, matchType = ''phone'', possibleMatch = None, isNew = False\<rparr>,
                update_customer (c_id pm) (phone_updates e pm email) s)
           | None \<Rightarrow> create_customer e s email phone fullName (fuzzyMatch s fullName)))"

section \<open>The contact form webhook\<close>

definition falsy :: "string option \<Rightarrow> bool" where
  "falsy v = (\<not> truthy v)"

text \<open>\<^verbatim>\<open>v || d\<close> where the result is used as a string.\<close>

definition str_or :: "string option \<Rightarrow> string \<Rightarrow> string" where
  "str_or v d = (case v of None \<Rightarrow> d | Some x \<Rightarrow> if x = [] then d else x)"

record contact_form =
  f_first_name :: "string option"
  f_last_name :: "string option"
  f_email :: "string option"
  f_phone :: "string option"
  f_purpose :: "string option"
  f_message :: "string option"
  f_attachment_info :: "string option"
  f_submitted_at :: "string option"

record contact_result =
  ticket_id :: string
  action :: string
  customer_match :: string
  possible_duplicate :: "(nat \<times> string \<times> string) option"

datatype 'a response = Status400 | Status404 | Status500 failure | Status201 'a | Status200 'a

text \<open>\<^verbatim>\<open>`TIX-${Math.floor(Math.random() * 9000) + 1000}`\<close>, a number of four digits.\<close>

definition digit_char :: "nat \<Rightarrow> char" where
  "digit_char k = ''0123456789'' ! (k mod 10)"

definition generateTicketId :: "env \<Rightarrow> string" where
  "generateTicketId e =
     (let num = rnd e mod 9000 + 1000 in
      ''TIX-'' @ [digit_char (num div 1000), digit_char (num div 100), digit_char (num div 10),
                  digit_char num])"

text \<open>
  \<^verbatim>\<open>.eq('customer_id', id).in('status', [..]).order('updated_at', desc).limit(1)\<close>, for
  the open and pending tickets (\<open>findOpenTicketForCustomer\<close>) and for the resolved and
  closed ones (\<open>recentClosed\<close>).
\<close>

definition findOpenTicketForCustomer :: "store \<Rightarrow> nat \<Rightarrow> ticket option" where
  "findOpenTicketForCustomer s customerId =
     latest (filter (\<lambda>t. t_customer_id t = customerId \<and> (t_status t = Open \<or> t_status t = Pending))
               (tickets s))"

definition recentClosed :: "store \<Rightarrow> nat \<Rightarrow> ticket option" where
  "recentClosed s customerId =
     latest (filter (\<lambda>t. t_customer_id t = customerId \<and> (t_status t = Resolved \<or> t_status t = Closed))
               (tickets s))"

definition customer_message :: "env \<Rightarrow> contact_form \<Rightarrow> string \<Rightarrow> nat \<Rightarrow> bool \<Rightarrow> bool \<Rightarrow> message" where
  "customer_message e req fullName tid threaded reopened =
     \<lparr>m_ticket_id = tid, m_sender_type = FromCustomer, m_sender_name = fullName,
      m_content = str_or (f_message req) [],
      m_metadata = Some
        \<lparr>md_purpose = f_purpose req, md_phone = f_phone req,
         md_attachment = (if truthy (f_attachment_info req) then f_attachment_info req else None),
         md_submitted_at =
           (case f_submitted_at req of
              None \<Rightarrow> Clock (now e)
            | Some v \<Rightarrow> if v = [] then Clock (now e) else Given v),
         md_threaded = threaded, md_reopened = reopened\<rparr>\<rparr>"

text \<open>
  The update of the ticket that both the threading and the reopening branch perform:
  the tags become \<^verbatim>\<open>[...new Set([...existingTags, ...autoTags])]\<close>, the status
  \<^verbatim>\<open>'open'\<close>.
\<close>

definition retag_and_open :: "env \<Rightarrow> ticket \<Rightarrow> string list \<Rightarrow> ticket \<Rightarrow> ticket" where
  "retag_and_open e found autoTags t =
     t\<lparr>t_ai_tags := Some (set_list (or_empty (t_ai_tags found) @ autoTags)),
       t_status := Open, t_updated_at := now e\<rparr>"

definition auto_reply :: "nat \<Rightarrow> string \<Rightarrow> message" where
  "auto_reply tid ticketId =
     \<lparr>m_ticket_id = tid, m_sender_type = FromAgent, m_sender_name = ''Auto-reply'',
      m_content = ''Thanks for reaching out! We've received your message and a team member will get back to you shortly. Your ticket number is '' @ ticketId @ ''.'',
      m_metadata = None\<rparr>"

text \<open>The system's note of a reopening (its dash written in ASCII).\<close>

definition reopen_notice :: "nat \<Rightarrow> message" where
  "reopen_notice tid =
     \<lparr>m_ticket_id = tid, m_sender_type = FromSystem, m_sender_name = ''System'',
      m_content = ''Ticket reopened - customer sent a follow-up message.'',
      m_metadata = None\<rparr>"

text \<open>
  The third branch: a new ticket with the classified priority and tags, the customer's
  message and the automatic acknowledgement. The columns the insert does not name take
  the table's defaults.
\<close>

definition new_ticket ::
  "env \<Rightarrow> store \<Rightarrow> contact_form \<Rightarrow> string \<Rightarrow> string list \<Rightarrow> priority \<Rightarrow> nat
     \<Rightarrow> (failure + string) \<times> store" where
  "new_ticket e s req fullName autoTags priority customerId =
     (let purpose = str_or (f_purpose req) ''Other'';
          message = str_or (f_message req) [];
          ticketId = generateTicketId e;
          row = \<lparr>t_id = next_ticket_id s, t_ticket_id = ticketId, t_customer_id = customerId,
                 t_subject = str_or (f_purpose req) ''General'' @ '': '' @ take 60 message
                   @ (if length message > 60 then ''...'' else []),
                 t_status = Open, t_priority = priority,
                 t_channel = ''site_form'', t_ai_tags = Some autoTags,
                 t_ai_summary = generateSummary purpose message fullName,
                 t_purpose = purpose, t_updated_at = now e\<rparr>
      in
      if fails e InsertTicket then (Inl StoreFailure, s)
      else
        (Inr ticketId,
         insert_message (auto_reply (t_id row) ticketId)
           (insert_message (customer_message e req fullName (t_id row) False False)
             (s\<lparr>tickets := tickets s @ [row], next_ticket_id := Suc (next_ticket_id s)\<rparr>))))"

text \<open>
  The three branches of the handler once the customer is known. Each gives the display
  id of the ticket and the store; the insert of a new ticket is the one store call whose
  error the handler throws.
\<close>

definition route_contact ::
  "env \<Rightarrow> store \<Rightarrow> contact_form \<Rightarrow> string \<Rightarrow> string list \<Rightarrow> priority \<Rightarrow> nat \<Rightarrow> ticket option
     \<Rightarrow> (failure + string) \<times> store" where
  "route_contact e s req fullName autoTags priority customerId openTicket =
     (case openTicket of
        Some found \<Rightarrow>
          (Inr (t_ticket_id found),
           update_ticket (t_id found) (retag_and_open e found autoTags)
             (insert_message (customer_message e req fullName (t_id found) True False) s))
      | None \<Rightarrow>
          (case recentClosed s customerId of
             Some recentTicket \<Rightarrow>
               if now e - t_updated_at recentTicket < 24 * 60 * 60 * 1000 then
                 (Inr (t_ticket_id recentTicket),
                  update_ticket (t_id recentTicket) (retag_and_open e recentTicket autoTags)
                    (insert_message (reopen_notice (t_id recentTicket))
                      (insert_message (customer_message e req fullName (t_id recentTicket) False True) s)))
               else new_ticket e s req fullName autoTags priority customerId
           | None \<Rightarrow> new_ticket e s req fullName autoTags priority customerId))"

text \<open>\<^verbatim>\<open>`${first_name} ${last_name || ''}`.trim()\<close>\<close>

definition form_name :: "contact_form \<Rightarrow> string" where
  "form_name req = trim (str_or (f_first_name req) [] @ '' '' @ str_or (f_last_name req) [])"

text \<open>
  \<^verbatim>\<open>app.post('/webhook/contact-form')\<close>. The tags and the priority are computed before
  the customer is looked for, so a purpose at which \<open>generateAutoTags\<close> throws is
  answered with status 500 before any store call.
\<close>

definition webhook_contact_form :: "env \<Rightarrow> store \<Rightarrow> contact_form \<Rightarrow> contact_result response \<times> store" where
  "webhook_contact_form e s req =
     (if falsy (f_first_name req) \<or> falsy (f_email req) \<or> falsy (f_message req) then (Status400, s)
      else
        (let fullName = form_name req in
         case generateAutoTags (str_or (f_purpose req) ''Other'') (str_or (f_message req) []) of
           Inl err \<Rightarrow> (Status500 err, s)
         | Inr autoTags \<Rightarrow>
             (let priority = determinePriority (str_or (f_purpose req) ''Other'') (str_or (f_message req) [])
              in
              case findOrCreateCustomer e s (str_or (f_email req) []) (f_phone req) fullName of
                (Inl err, s1) \<Rightarrow> (Status500 err, s1)
              | (Inr r, s1) \<Rightarrow>
                  (let customerId = c_id (res_customer r);
                       openTicket = findOpenTicketForCustomer s1 customerId
                   in
                   case route_contact e s1 req fullName autoTags priority customerId openTicket of
                     (Inl err, s2) \<Rightarrow> (Status500 err, s2)
                   | (Inr ticketId, s2) \<Rightarrow>
                       (Status201
                          \<lparr>ticket_id = ticketId,
                           action = (if openTicket \<noteq> None then ''threaded'' else ''created''),
                           customer_match = matchType r,
                           possible_duplicate =
                             map_option (\<lambda>c. (c_id c, c_name c, c_email c)) (possibleMatch r)\<rparr>,
                        s2)))))"

section \<open>Merging two customers\<close>

record merge_result =
  mr_primary :: "nat \<times> string \<times> string"
  mr_secondary :: "nat \<times> string \<times> string"
  ticketsMoved :: int

text \<open>An identifier of the request body is falsy when it is absent or zero.\<close>

definition falsy_id :: "nat option \<Rightarrow> bool" where
  "falsy_id v = (case v of None \<Rightarrow> True | Some i \<Rightarrow> i = 0)"

text \<open>The \<^verbatim>\<open>updates\<close> object of the merge, from the two rows as they were fetched.\<close>

definition merge_updates :: "env \<Rightarrow> customer \<Rightarrow> customer \<Rightarrow> customer \<Rightarrow> customer" where
  "merge_updates e primary secondary c =
     c\<lparr>c_phone := or_str (c_phone primary) (c_phone secondary),
       c_tags := Some (set_list (or_empty (c_tags primary) @ or_empty (c_tags secondary))),
       c_alt_emails := Some (removeAll (c_email primary)
          (set_list (or_empty (c_alt_emails primary) @ or_empty (c_alt_emails secondary)
                       @ [c_email secondary]))),
       c_ticket_count := c_ticket_count primary + c_ticket_count secondary,
       c_shopify_customer_id := or_str (c_shopify_customer_id primary) (c_shopify_customer_id secondary),
       c_shopify_order_count :=
         Some (max (or_zero (c_shopify_order_count primary)) (or_zero (c_shopify_order_count secondary))),
       c_shopify_ltv := Some (max (or_zero (c_shopify_ltv primary)) (or_zero (c_shopify_ltv secondary))),
       c_possible_duplicate_of := None,
       c_updated_at := now e\<rparr>"

text \<open>The four writes of the merge; a call that fails changes nothing.\<close>

definition move_tickets :: "nat \<Rightarrow> nat \<Rightarrow> store \<Rightarrow> store" where
  "move_tickets secondary_id primary_id s =
     s\<lparr>tickets := map (\<lambda>t. if t_customer_id t = secondary_id then t\<lparr>t_customer_id := primary_id\<rparr> else t)
                      (tickets s)\<rparr>"

definition clear_duplicate_refs :: "nat \<Rightarrow> store \<Rightarrow> store" where
  "clear_duplicate_refs secondary_id s =
     s\<lparr>customers := map (\<lambda>c. if c_possible_duplicate_of c = Some secondary_id
                                then c\<lparr>c_possible_duplicate_of := None\<rparr> else c)
                        (customers s)\<rparr>"

definition delete_customer :: "nat \<Rightarrow> store \<Rightarrow> store" where
  "delete_customer secondary_id s = s\<lparr>customers := filter (\<lambda>c. c_id c \<noteq> secondary_id) (customers s)\<rparr>"

definition attempt :: "env \<Rightarrow> store_call \<Rightarrow> (store \<Rightarrow> store) \<Rightarrow> store \<Rightarrow> store" where
  "attempt e call write s = (if fails e call then s else write s)"

text \<open>
  \<^verbatim>\<open>app.post('/api/customers/merge')\<close>. Only the first write's error is looked at
  (\<^verbatim>\<open>if (ticketErr) throw ticketErr\<close>); the results of the other three are dropped.
\<close>

definition merge_customers :: "env \<Rightarrow> store \<Rightarrow> nat option \<Rightarrow> nat option \<Rightarrow> merge_result response \<times> store" where
  "merge_customers e s primary_id secondary_id =
     (if falsy_id primary_id \<or> falsy_id secondary_id then (Status400, s)
      else if primary_id = secondary_id then (Status400, s)
      else
        (let pid = or_zero primary_id; sid = or_zero secondary_id in
         case (customer_by_id s pid, customer_by_id s sid) of
           (Some primary, Some secondary) \<Rightarrow>
             if fails e MoveTickets then (Status500 StoreFailure, s)
             else
               (Status200
                  \<lparr>mr_primary = (pid, c_name primary, c_email primary),
                   mr_secondary = (sid, c_name secondary, c_email secondary),
                   ticketsMoved = c_ticket_count secondary\<rparr>,
                attempt e DeleteSecondary (delete_customer sid)
                  (attempt e ClearDuplicates (clear_duplicate_refs sid)
                    (attempt e UpdatePrimary (update_customer pid (merge_updates e primary secondary))
                       (move_tickets sid pid s))))
         | _ \<Rightarrow> (Status404, s)))"

section \<open>Observations and example data\<close>

text \<open>What the properties read off a store: a customer's alternate emails and tickets.\<close>

definition alt_emails_of :: "store \<Rightarrow> nat \<Rightarrow> string list" where
  "alt_emails_of s i = (case customer_by_id s i of None \<Rightarrow> [] | Some c \<Rightarrow> or_empty (c_alt_emails c))"

definition tickets_owned :: "store \<Rightarrow> nat \<Rightarrow> ticket list" where
  "tickets_owned s i = filter (\<lambda>t. t_customer_id t = i) (tickets s)"

text \<open>The stores and contacts at which the properties are evaluated.\<close>

definition hour :: int where
  "hour = 60 * 60 * 1000"

definition empty_store :: store where
  "empty_store = \<lparr>customers = [], tickets = [], messages = [], next_customer_id = 1, next_ticket_id = 1\<rparr>"

definition ann :: customer where
  "ann = \<lparr>c_id = 1, c_name = ''Ann Lee'', c_email = ''ann@x.com'', c_phone = None,
          c_alt_emails = None, c_tags = Some [], c_ticket_count = 1,
          c_possible_duplicate_of = None, c_shopify_customer_id = None,
          c_shopify_order_count = None, c_shopify_ltv = None, c_updated_at = 0\<rparr>"

definition ann_ticket :: "status \<Rightarrow> int \<Rightarrow> ticket" where
  "ann_ticket st upd =
     \<lparr>t_id = 1, t_ticket_id = ''TIX-1007'', t_customer_id = 1, t_subject = ''Other: hello'',
      t_status = st, t_priority = Medium, t_channel = ''site_form'',
      t_ai_tags = Some [''General inquiry''], t_ai_summary = [], t_purpose = ''Other'',
      t_updated_at = upd\<rparr>"

text \<open>Ann with her one ticket, in the given status and last updated at the given time.\<close>

definition ann_store :: "status \<Rightarrow> int \<Rightarrow> store" where
  "ann_store st upd =
     \<lparr>customers = [ann], tickets = [ann_ticket st upd], messages = [],
      next_customer_id = 2, next_ticket_id = 2\<rparr>"

definition contact :: "string \<Rightarrow> string \<Rightarrow> string \<Rightarrow> string option \<Rightarrow> string \<Rightarrow> contact_form" where
  "contact fname lname email phone msg =
     \<lparr>f_first_name = Some fname, f_last_name = Some lname, f_email = Some email, f_phone = phone,
      f_purpose = None, f_message = Some msg, f_attachment_info = None, f_submitted_at = None\<rparr>"

text \<open>
  A request during which another request, a contact with the same email, is served
  between the look-ups and the insert.
\<close>

definition racing :: env where
  "racing =
     \<lparr>now = 10, rnd = 0, fails = (\<lambda>_. False),
      concurrent = (\<lambda>s. snd (webhook_contact_form (quiet 9 1) s
                                (contact ''Ann'' ''Lee'' ''Ann@X.com'' None ''hello'')))\<rparr>"

text \<open>A store in which the update of the primary customer fails during a merge.\<close>

definition update_fails :: env where
  "update_fails = \<lparr>now = 10, rnd = 0, fails = (\<lambda>c. c = UpdatePrimary), concurrent = (\<lambda>s. s)\<rparr>"

text \<open>A store in which the reassignment of the tickets fails during a merge.\<close>

definition move_fails :: env where
  "move_fails = \<lparr>now = 10, rnd = 0, fails = (\<lambda>c. c = MoveTickets), concurrent = (\<lambda>s. s)\<rparr>"

text \<open>A store in which the deletion of the secondary customer fails during a merge.\<close>

definition delete_fails :: env where
  "delete_fails = \<lparr>now = 10, rnd = 0, fails = (\<lambda>c. c = DeleteSecondary), concurrent = (\<lambda>s. s)\<rparr>"

definition bob :: customer where
  "bob = \<lparr>c_id = 2, c_name = ''Bob Ray'', c_email = ''bob@y.org'', c_phone = Some ''+1 (555) 123-4567'',
          c_alt_emails = Some [''b.ray@y.org''], c_tags = Some [''VIP''], c_ticket_count = 1,
          c_possible_duplicate_of = Some 1, c_shopify_customer_id = None,
          c_shopify_order_count = Some 3, c_shopify_ltv = Some 120, c_updated_at = 0\<rparr>"

definition bob_ticket :: ticket where
  "bob_ticket =
     \<lparr>t_id = 2, t_ticket_id = ''TIX-2001'', t_customer_id = 2, t_subject = ''Billing: charged twice'',
      t_status = Open, t_priority = High, t_channel = ''site_form'',
      t_ai_tags = Some [''Billing inquiry''], t_ai_summary = [], t_purpose = ''Billing'',
      t_updated_at = 0\<rparr>"

definition two_customers :: store where
  "two_customers =
     \<lparr>customers = [ann, bob], tickets = [ann_ticket Open 0, bob_ticket], messages = [],
      next_customer_id = 3, next_ticket_id = 3\<rparr>"

section \<open>Fuzzy name similarity\<close>

lemma split_blank_nonempty: "split_blank s \<noteq> []"
  by (induction s) (auto split: list.splits)

lemma foldl_pairs:
  "foldl (\<lambda>m pa. foldl (\<lambda>m pb. f m (g pa pb)) m ys) z xs
     = foldl f z (map (\<lambda>(pa, pb). g pa pb) (List.product xs ys))"
proof (induction xs arbitrary: z)
  case Nil
  then show ?case by simp
next
  case (Cons x xs)
  have row: "foldl (\<lambda>m pb. f m (g x pb)) z ys = foldl f z (map (\<lambda>(pa, pb). g pa pb) (map (Pair x) ys))"
    by (simp add: foldl_map comp_def)
  show ?case by (simp add: Cons.IH row)
qed

lemma pair_award_cases:
  "pair_award pa pb =
     (if pa = pb then (if 1 < length pa then 1 else 0)
      else if 3 < length pa \<and> 3 < length pb \<and> \<bar>int (length pa) - int (length pb)\<bar> \<le> 1
              \<and> aligned_diff (if length pa \<le> length pb then pa else pb)
                               (if length pb < length pa then pa else pb) \<le> 1
           then to_double (8 / 10) else 0)"
  by (auto simp: pair_award_def Let_def)

lemma nameSimilarity_rule:
  "nameSimilarity a b =
     (if normalizeName a = normalizeName b then 1
      else fdiv (foldl fadd 0 (map (\<lambda>(pa, pb). pair_award pa pb)
                   (List.product (split_blank (normalizeName a)) (split_blank (normalizeName b)))))
             (of_nat (max (length (split_blank (normalizeName a))) (length (split_blank (normalizeName b))))))"
proof -
  have "0 < max (length (split_blank (normalizeName a))) (length (split_blank (normalizeName b)))"
    using split_blank_nonempty [of "normalizeName a"] split_blank_nonempty [of "normalizeName b"]
    by (simp add: max_def)
  then show ?thesis
    by (simp add: nameSimilarity_def Let_def foldl_pairs [of fadd pair_award])
qed

lemma doubles: "to_double (8 / 10) = 3602879701896397 / 4503599627370496"
  "to_double (7 / 10) = 3152519739159347 / 4503599627370496"
  by code_simp+

lemma john_jon: "nameSimilarity ''John Smith'' ''Jon Smith'' = 1 / 2"
  by code_simp

lemma sarah_sara: "nameSimilarity ''Sarah Lee'' ''Sara Lee'' = 8106479329266893 / 9007199254740992"
  by code_simp

lemma john_alice: "nameSimilarity ''John Smith'' ''Alice Johnson'' = 0"
  by code_simp

lemma equal_names: "nameSimilarity ''A B'' ''A B'' = 1"
  by code_simp

lemma three_partial_credits:
  "nameSimilarity ''abcd abcd abcd'' ''abce'' = 7205759403792795 / 9007199254740992"
  by code_simp

text \<open>
  C1, as the spec states it: the similarity of "John Smith" and "Jon Smith" and that of
  "Sarah Lee" and "Sara Lee" both exceed 0.7, and that of "John Smith" and
  "Alice Johnson" does not. The first bound fails: "jon" has three letters, and the
  partial credit of 0.8 is given only when both tokens have more than three, so the pair
  "john"/"jon" scores nothing and the similarity is 1/2.
\<close>

theorem nameSimilarity_spec_bounds_counterexample:
  "\<not> (nameSimilarity ''John Smith'' ''Jon Smith'' > to_double (7 / 10)
      \<and> nameSimilarity ''Sarah Lee'' ''Sara Lee'' > to_double (7 / 10)
      \<and> nameSimilarity ''John Smith'' ''Alice Johnson'' \<le> to_double (7 / 10))"
  unfolding john_jon doubles by simp

text \<open>
  C1, amended. On the examples: the similarity of "John Smith" and "Jon Smith" is 0.5,
  which does not exceed 0.7; that of "Sarah Lee" and "Sara Lee" is the double 0.9, which
  does; that of "John Smith" and "Alice Johnson" is 0. In general the score is 1 when the
  two normalised names are equal. Otherwise it is the sum of the awards of all pairs of a
  token of the first name and a token of the second, added in double arithmetic in the
  order of the loops, divided by the larger token count, which is never zero. A pair of
  equal tokens earns 1.0 if the token is longer than one character and nothing
  otherwise; a pair of different tokens earns the double 0.8 if both are longer than
  three characters, their lengths differ by at most one and, aligned at the first
  character, they differ in at most one position over the length of the shorter; any
  other pair earns nothing.
\<close>

theorem nameSimilarity_examples:
  "nameSimilarity ''John Smith'' ''Jon Smith'' = 1 / 2
   \<and> \<not> nameSimilarity ''John Smith'' ''Jon Smith'' > to_double (7 / 10)
   \<and> nameSimilarity ''Sarah Lee'' ''Sara Lee'' = 8106479329266893 / 9007199254740992
   \<and> nameSimilarity ''Sarah Lee'' ''Sara Lee'' > to_double (7 / 10)
   \<and> nameSimilarity ''John Smith'' ''Alice Johnson'' = 0
   \<and> to_double (8 / 10) = 3602879701896397 / 4503599627370496
   \<and> to_double (7 / 10) = 3152519739159347 / 4503599627370496
   \<and> nameSimilarity a b =
       (if normalizeName a = normalizeName b then 1
        else fdiv (foldl fadd 0 (map (\<lambda>(pa, pb). pair_award pa pb)
                     (List.product (split_blank (normalizeName a)) (split_blank (normalizeName b)))))
               (of_nat (max (length (split_blank (normalizeName a)))
                            (length (split_blank (normalizeName b))))))
   \<and> 0 < max (length (split_blank (normalizeName a))) (length (split_blank (normalizeName b)))
   \<and> pair_award pa pb =
       (if pa = pb then (if 1 < length pa then 1 else 0)
        else if 3 < length pa \<and> 3 < length pb \<and> \<bar>int (length pa) - int (length pb)\<bar> \<le> 1
                \<and> aligned_diff (if length pa \<le> length pb then pa else pb)
                                 (if length pb < length pa then pa else pb) \<le> 1
             then to_double (8 / 10) else 0)"
proof -
  have pos: "0 < max (length (split_blank (normalizeName a))) (length (split_blank (normalizeName b)))"
    using split_blank_nonempty [of "normalizeName a"] split_blank_nonempty [of "normalizeName b"]
    by (simp add: max_def)
  have low: "\<not> nameSimilarity ''John Smith'' ''Jon Smith'' > to_double (7 / 10)"
    unfolding john_jon doubles by simp
  have high: "nameSimilarity ''Sarah Lee'' ''Sara Lee'' > to_double (7 / 10)"
    unfolding sarah_sara doubles by simp
  show ?thesis
    using john_jon low sarah_sara high john_alice doubles pos
      nameSimilarity_rule [of a b] pair_award_cases [of pa pb]
    by (simp only: simp_thms)
qed
section \<open>Priorities\<close>

lemma determinePriority_cases:
  "determinePriority purpose message = Urgent \<or> determinePriority purpose message = High
     \<or> determinePriority purpose message = Medium"
  by (simp add: determinePriority_def Let_def)

lemma determinePriority_rank: "Suc 0 \<le> priority_rank (determinePriority purpose message)"
  by (simp add: determinePriority_def priority_rank_def Let_def)

text \<open>Resolving the customer leaves the tickets alone, when no other request interferes.\<close>

lemma insert_customer_tickets:
  "tickets (snd (insert_customer n s nm em ph dup)) = tickets s"
  by (simp add: insert_customer_def Let_def)

lemma create_customer_tickets:
  "tickets (snd (create_customer e s email phone fullName cand)) = tickets (concurrent e s)"
  using insert_customer_tickets [of "now e" "concurrent e s" fullName "toLowerCase email"
      "if truthy phone then phone else None" "map_option c_id cand"]
  by (auto simp: create_customer_def split: prod.splits sum.splits)

lemma findOrCreateCustomer_tickets:
  "concurrent e s = s \<Longrightarrow> tickets (snd (findOrCreateCustomer e s email phone fullName)) = tickets s"
  by (simp add: findOrCreateCustomer_def update_customer_def create_customer_tickets
      split: option.splits)

lemma route_contact_new_rows:
  assumes "t \<in> set (tickets (snd (route_contact e s req fullName autoTags priority cid ot)))"
    and "\<forall>u \<in> set (tickets s). t_id u \<noteq> t_id t"
  shows "t_priority t = priority"
  using assms
  by (auto simp: route_contact_def new_ticket_def Let_def insert_message_def update_ticket_def
      retag_and_open_def split: option.splits if_splits)

text \<open>
  C10: \<open>determinePriority\<close> returns urgent, high or medium, never low; so a ticket that
  the contact form webhook adds to the store (a row whose identifier no ticket had
  before) has a priority of at least medium.
\<close>

theorem determinePriority_never_low:
  "determinePriority purpose message \<noteq> Low
   \<and> 1 \<le> priority_rank (determinePriority purpose message)
   \<and> (t \<in> set (tickets (snd (webhook_contact_form (quiet n k) s req)))
        \<longrightarrow> t_id t \<notin> t_id ` set (tickets s)
        \<longrightarrow> 1 \<le> priority_rank (t_priority t))"
proof -
  have a: "determinePriority purpose message \<noteq> Low"
    using determinePriority_cases [of purpose message] by auto
  have q: "concurrent (quiet n k) s = s" by (simp add: quiet_def)
  have c: "1 \<le> priority_rank (t_priority t)"
    if t: "t \<in> set (tickets (snd (webhook_contact_form (quiet n k) s req)))"
    and new: "t_id t \<notin> t_id ` set (tickets s)"
  proof -
    let ?fc = "findOrCreateCustomer (quiet n k) s (str_or (f_email req) []) (f_phone req)
             (form_name req)"
    have tk: "tickets (snd ?fc) = tickets s" using findOrCreateCustomer_tickets [OF q] by simp
    let ?tags = "generateAutoTags (str_or (f_purpose req) ''Other'') (str_or (f_message req) [])"
    let ?pr = "determinePriority (str_or (f_purpose req) ''Other'') (str_or (f_message req) [])"
    show ?thesis
    proof (cases "falsy (f_first_name req) \<or> falsy (f_email req) \<or> falsy (f_message req)")
      case True
      then show ?thesis using t new by (auto simp: webhook_contact_form_def)
    next
      case False
      show ?thesis
      proof (cases ?tags)
        case (Inl err)
        then show ?thesis using t new False by (auto simp: webhook_contact_form_def Let_def)
      next
        case tags: (Inr autoTags)
        show ?thesis
        proof (cases ?fc)
          case (Pair out s1)
          then have s1: "tickets s1 = tickets s" using tk by simp
          show ?thesis
          proof (cases out)
            case (Inl err)
            then show ?thesis using t new False tags Pair s1
              by (auto simp: webhook_contact_form_def Let_def)
          next
            case (Inr r)
            let ?rc = "route_contact (quiet n k) s1 req (form_name req) autoTags ?pr
                 (c_id (res_customer r)) (findOpenTicketForCustomer s1 (c_id (res_customer r)))"
            have new': "\<forall>u \<in> set (tickets s1). t_id u \<noteq> t_id t"
              using new s1 by (auto simp: image_iff)
            have "snd (webhook_contact_form (quiet n k) s req) = snd ?rc"
              using False tags Pair Inr
              by (simp add: webhook_contact_form_def Let_def split: prod.splits sum.splits)
            then have "t_priority t = ?pr" using t route_contact_new_rows [OF _ new'] by simp
            then show ?thesis using determinePriority_rank [of "str_or (f_purpose req) ''Other''" "str_or (f_message req) []"]
              by simp
          qed
        qed
      qed
    qed
  qed
  show ?thesis using a determinePriority_rank [of purpose message] c by simp
qed

lemma first_contact_tickets:
  "map t_priority (tickets (snd (webhook_contact_form (quiet 0 7) empty_store
      (contact ''Ann'' ''Lee'' ''Ann@X.com'' None ''hello'')))) = [Medium]
   \<and> map t_id (tickets (snd (webhook_contact_form (quiet 0 7) empty_store
      (contact ''Ann'' ''Lee'' ''Ann@X.com'' None ''hello'')))) = [1]"
  by code_simp

theorem determinePriority_never_low_witness:
  "hd (tickets (snd (webhook_contact_form (quiet 0 7) empty_store
         (contact ''Ann'' ''Lee'' ''Ann@X.com'' None ''hello''))))
     \<in> set (tickets (snd (webhook_contact_form (quiet 0 7) empty_store
         (contact ''Ann'' ''Lee'' ''Ann@X.com'' None ''hello''))))
   \<and> t_id (hd (tickets (snd (webhook_contact_form (quiet 0 7) empty_store
         (contact ''Ann'' ''Lee'' ''Ann@X.com'' None ''hello'')))))
     \<notin> t_id ` set (tickets empty_store)
   \<and> 1 \<le> priority_rank (t_priority (hd (tickets (snd (webhook_contact_form (quiet 0 7) empty_store
         (contact ''Ann'' ''Lee'' ''Ann@X.com'' None ''hello''))))))
   \<and> determinePriority ''Other'' ''hello'' \<noteq> Low"
proof -
  let ?s = "snd (webhook_contact_form (quiet 0 7) empty_store
         (contact ''Ann'' ''Lee'' ''Ann@X.com'' None ''hello''))"
  have ne: "tickets ?s \<noteq> []" using first_contact_tickets by auto
  then have m: "hd (tickets ?s) \<in> set (tickets ?s)" by simp
  have fresh: "t_id (hd (tickets ?s)) \<notin> t_id ` set (tickets empty_store)"
    by (simp add: empty_store_def)
  show ?thesis
    using determinePriority_never_low [of "''Other''" "''hello''" "hd (tickets ?s)" 0 7 empty_store
        "contact ''Ann'' ''Lee'' ''Ann@X.com'' None ''hello''"] m fresh
    by simp
qed

section \<open>The email tier\<close>

lemma single_Some: "(single xs = Some x) = (xs = [x])"
  by (cases xs) (auto simp: single_def split: list.splits)

lemma filter_key_map:
  "(\<And>c. k (g c) = k c) \<Longrightarrow> filter (\<lambda>c. k c = i) (map g cs) = map g (filter (\<lambda>c. k c = i) cs)"
  by (induction cs) auto

lemma find_map_pres:
  "(\<And>x. P (g x) = P x) \<Longrightarrow> List.find P (map g xs) = map_option g (List.find P xs)"
  by (induction xs) auto

lemma filter_distinct_key:
  "distinct (map k cs) \<Longrightarrow> C \<in> set cs \<Longrightarrow> filter (\<lambda>c. k c = k C) cs = [C]"
proof (induction cs)
  case Nil
  then show ?case by simp
next
  case (Cons a cs)
  show ?case
  proof (cases "a = C")
    case True
    have "filter (\<lambda>c. k c = k C) cs = []"
      using Cons.prems(1) True by (force simp: filter_empty_conv image_iff)
    then show ?thesis using True by simp
  next
    case False
    then have "C \<in> set cs" using Cons.prems(2) by simp
    moreover have "k a \<noteq> k C" using Cons.prems(1) calculation by auto
    ultimately show ?thesis using Cons by simp
  qed
qed

lemma customer_by_id_distinct:
  "distinct (map c_id (customers s)) \<Longrightarrow> C \<in> set (customers s) \<Longrightarrow> customer_by_id s (c_id C) = Some C"
  by (simp add: customer_by_id_def single_Some filter_distinct_key)

lemma customer_by_id_update:
  assumes "customer_by_id s i = Some C" and "\<And>c. c_id (f c) = c_id c"
  shows "customer_by_id (update_customer i f s) i = Some (f C)"
proof -
  have "filter (\<lambda>c. c_id c = i) (customers s) = [C]"
    using assms(1) by (simp add: customer_by_id_def single_Some)
  then have "filter (\<lambda>c. c_id c = i) (map (\<lambda>c. if c_id c = i then f c else c) (customers s)) = [f C]"
    using filter_key_map [of c_id "\<lambda>c. if c_id c = i then f c else c" i "customers s"] assms(2)
    by (auto simp: filter_eq_Cons_iff)
  then show ?thesis by (simp add: customer_by_id_def update_customer_def single_Some)
qed

lemma update_customer_others:
  assumes "\<And>c. c_id (f c) = c_id c"
  shows "filter (\<lambda>d. c_id d \<noteq> i) (customers (update_customer i f s))
           = filter (\<lambda>d. c_id d \<noteq> i) (customers s)"
proof -
  have "filter (\<lambda>d. c_id d \<noteq> i) (map (\<lambda>c. if c_id c = i then f c else c) cs)
          = filter (\<lambda>d. c_id d \<noteq> i) cs" for cs
    using assms by (induction cs) auto
  then show ?thesis by (simp add: update_customer_def)
qed

lemma update_customer_ids:
  "(\<And>c. c_id (f c) = c_id c) \<Longrightarrow> map c_id (customers (update_customer i f s)) = map c_id (customers s)"
  by (simp add: update_customer_def comp_def cong: map_cong)

text \<open>
  C7, as the spec states it: a contact whose email is that of an existing customer in any
  casing updates the customer's name if the incoming name differs. It fails for an empty
  incoming name (a first name of blanks passes the handler's validation and is trimmed to
  nothing): the name differs from the stored one, and the stored one stays, since the
  update is guarded by \<^verbatim>\<open>fullName &&\<close>.
\<close>

theorem email_tier_empty_name_counterexample:
  "customer_by_email (ann_store Open 0) (toLowerCase ''Ann@X.com'') = Some ann
   \<and> [] \<noteq> c_name ann
   \<and> map c_name (customers (snd (findOrCreateCustomer (quiet 5 0) (ann_store Open 0)
                                    ''Ann@X.com'' None []))) = [c_name ann]
   \<and> form_name (contact '' '' [] ''Ann@X.com'' None ''hello'') = []
   \<and> map c_name (customers (snd (webhook_contact_form (quiet 5 0) (ann_store Open 0)
                                    (contact '' '' [] ''Ann@X.com'' None ''hello'')))) = [c_name ann]"
  by code_simp

text \<open>
  C7, amended: let C be the one customer whose primary email is the contact's email in
  lower case, and the one customer with its identifier. Then resolving the contact returns C with
  match type "email" and creates no record; in the store C has its ticket count
  incremented by one, its name replaced by the incoming name if that is not empty and
  differs from the stored one, its phone replaced by the incoming phone only if the stored
  one was absent or empty and the incoming one is not; every other customer is as before.
\<close>

theorem email_tier:
  assumes "customer_by_email s (toLowerCase email) = Some C"
    and "customer_by_id s (c_id C) = Some C"
  shows "fst (findOrCreateCustomer e s email phone fullName)
           = Inr \<lparr>res_customer = C, matchType = ''email'', possibleMatch = None, isNew = False\<rparr>
       \<and> map c_id (customers (snd (findOrCreateCustomer e s email phone fullName))) = map c_id (customers s)
       \<and> customer_by_id (snd (findOrCreateCustomer e s email phone fullName)) (c_id C)
           = Some (C\<lparr>c_updated_at := now e,
                     c_ticket_count := c_ticket_count C + 1,
                     c_name := (if fullName \<noteq> [] \<and> fullName \<noteq> c_name C then fullName else c_name C),
                     c_phone := (if truthy phone \<and> \<not> truthy (c_phone C) then phone else c_phone C)\<rparr>)
       \<and> filter (\<lambda>d. c_id d \<noteq> c_id C) (customers (snd (findOrCreateCustomer e s email phone fullName)))
           = filter (\<lambda>d. c_id d \<noteq> c_id C) (customers s)"
proof -
  let ?f = "email_updates e C phone fullName"
  have run: "findOrCreateCustomer e s email phone fullName
      = (Inr \<lparr>res_customer = C, matchType = ''email'', possibleMatch = None, isNew = False\<rparr>,
         update_customer (c_id C) ?f s)"
    using assms(1) by (simp add: findOrCreateCustomer_def)
  have id: "\<And>c. c_id (?f c) = c_id c" by (simp add: email_updates_def)
  have a: "customer_by_id (update_customer (c_id C) ?f s) (c_id C) = Some (?f C)"
    using customer_by_id_update [OF assms(2), of ?f] id by simp
  have b: "filter (\<lambda>d. c_id d \<noteq> c_id C) (customers (update_customer (c_id C) ?f s))
      = filter (\<lambda>d. c_id d \<noteq> c_id C) (customers s)"
    using update_customer_others [of ?f "c_id C" s] id by simp
  have c: "map c_id (customers (update_customer (c_id C) ?f s)) = map c_id (customers s)"
    using update_customer_ids [of ?f "c_id C" s] id by simp
  show ?thesis unfolding run using a b c by (simp add: email_updates_def)
qed

theorem email_tier_witness:
  "customer_by_email (ann_store Open 0) (toLowerCase ''Ann@X.com'') = Some ann
   \<and> customer_by_id (ann_store Open 0) (c_id ann) = Some ann
   \<and> fst (findOrCreateCustomer (quiet 5 0) (ann_store Open 0) ''Ann@X.com'' (Some ''555 0100'') ''Ann B. Lee'')
       = Inr \<lparr>res_customer = ann, matchType = ''email'', possibleMatch = None, isNew = False\<rparr>
   \<and> customer_by_id (snd (findOrCreateCustomer (quiet 5 0) (ann_store Open 0) ''Ann@X.com''
                            (Some ''555 0100'') ''Ann B. Lee'')) (c_id ann)
       = Some (ann\<lparr>c_updated_at := 5, c_ticket_count := 2, c_name := ''Ann B. Lee'',
                   c_phone := Some ''555 0100''\<rparr>)"
proof -
  have h1: "customer_by_email (ann_store Open 0) (toLowerCase ''Ann@X.com'') = Some ann"
    by code_simp
  have h2: "customer_by_id (ann_store Open 0) (c_id ann) = Some ann"
    by code_simp
  show ?thesis
    using email_tier [OF h1 h2, of "quiet 5 0" "Some ''555 0100''" "''Ann B. Lee''"] h1 h2
    by (simp add: ann_def quiet_def truthy_def)
qed

section \<open>The phone tier\<close>

lemma customer_by_email_none:
  assumes "em \<notin> c_email ` set (customers s)"
  shows "customer_by_email s em = None"
proof -
  have "filter (\<lambda>c. c_email c = em) (customers s) = []"
    using assms by (auto simp: filter_empty_conv)
  then show ?thesis by (simp add: customer_by_email_def single_def)
qed

lemma phoneMatch_find:
  "10 \<le> length (digits_only p) \<Longrightarrow>
     phoneMatch s (Some p) = List.find (phone_matches (last10 (digits_only p))) (customers s)"
  by (auto simp: phoneMatch_def Let_def digits_only_def)

lemma phone_tier_run:
  assumes "customer_by_email s (toLowerCase email) = None" and "phoneMatch s phone = Some C"
  shows "findOrCreateCustomer e s email phone fullName
      = (Inr \<lparr>res_customer = C, matchType = ''phone'', possibleMatch = None, isNew = False\<rparr>,
         update_customer (c_id C) (phone_updates e C email) s)"
  using assms by (simp add: findOrCreateCustomer_def)

lemma phone_updates_keeps:
  "c_id (phone_updates e pm email c) = c_id c"
  "c_email (phone_updates e pm email c) = c_email c"
  "c_phone (phone_updates e pm email c) = c_phone c"
  by (simp_all add: phone_updates_def)

lemma phone_updates_alts:
  "or_empty (c_alt_emails (phone_updates e C email C))
     = (if toLowerCase email \<in> set (or_empty (c_alt_emails C)) then or_empty (c_alt_emails C)
        else or_empty (c_alt_emails C) @ [toLowerCase email])"
  by (cases "c_alt_emails C") (simp_all add: phone_updates_def or_empty_def)

lemma phone_updates_alts_twice:
  "or_empty (c_alt_emails (phone_updates e' (phone_updates e C email C) email (phone_updates e C email C)))
     = or_empty (c_alt_emails (phone_updates e C email C))"
  by (cases "c_alt_emails C") (simp_all add: phone_updates_def or_empty_def)

lemma update_customer_emails:
  assumes "\<And>c. c_email (f c) = c_email c"
  shows "c_email ` set (customers (update_customer i f s)) = c_email ` set (customers s)"
proof -
  have "map c_email (map (\<lambda>c. if c_id c = i then f c else c) cs) = map c_email cs" for cs
    using assms by (induction cs) auto
  then have "map c_email (customers (update_customer i f s)) = map c_email (customers s)"
    by (simp add: update_customer_def)
  then show ?thesis
    using set_map [of c_email "customers (update_customer i f s)"] set_map [of c_email "customers s"]
    by simp
qed

lemma update_customer_find:
  assumes "\<And>c. P (f c) = P c" and "List.find P (customers s) = Some C"
  shows "List.find P (customers (update_customer (c_id C) f s)) = Some (f C)"
proof -
  have "\<And>c. P (if c_id c = c_id C then f c else c) = P c" using assms(1) by simp
  then have "List.find P (map (\<lambda>c. if c_id c = c_id C then f c else c) (customers s))
      = map_option (\<lambda>c. if c_id c = c_id C then f c else c) (List.find P (customers s))"
    by (rule find_map_pres)
  then show ?thesis using assms(2) by (simp add: update_customer_def)
qed

lemma alt_emails_of_update:
  assumes "customer_by_id s i = Some C" and "\<And>c. c_id (f c) = c_id c"
  shows "alt_emails_of (update_customer i f s) i = or_empty (c_alt_emails (f C))"
  using customer_by_id_update [OF assms] by (simp add: alt_emails_of_def)


text \<open>
  C8: let the contact's email be no customer's primary email, let its phone have at least
  ten digits, and let the last ten be the last ten digits of the phone of some customer D
  (identifiers being distinct). Then the scan finds a customer C whose phone ends in those
  ten digits (D itself, unless a row before D matches too), resolution returns C with
  match type "phone", and C's alternate emails are the old ones followed by the contact's
  email in lower case if it was not among them. Resolving the same contact again returns
  the customer with C's identifier by phone once more and leaves the alternate emails as
  they are.
\<close>

theorem phone_tier:
  assumes ids: "distinct (map c_id (customers s))"
    and no_email: "toLowerCase email \<notin> c_email ` set (customers s)"
    and digits: "10 \<le> length (digits_only p)"
    and D: "D \<in> set (customers s)"
    and Dphone: "c_phone D = Some dp" "last10 (digits_only dp) = last10 (digits_only p)"
  shows "\<exists>C. List.find (phone_matches (last10 (digits_only p))) (customers s) = Some C
           \<and> C \<in> set (customers s)
           \<and> phone_matches (last10 (digits_only p)) C
           \<and> fst (findOrCreateCustomer e s email (Some p) fullName)
               = Inr \<lparr>res_customer = C, matchType = ''phone'', possibleMatch = None, isNew = False\<rparr>
           \<and> alt_emails_of (snd (findOrCreateCustomer e s email (Some p) fullName)) (c_id C)
               = (if toLowerCase email \<in> set (alt_emails_of s (c_id C)) then alt_emails_of s (c_id C)
                  else alt_emails_of s (c_id C) @ [toLowerCase email])
           \<and> map_sum id (\<lambda>r. (c_id (res_customer r), matchType r))
                (fst (findOrCreateCustomer e' (snd (findOrCreateCustomer e s email (Some p) fullName))
                        email (Some p) fullName))
               = Inr (c_id C, ''phone'')
           \<and> alt_emails_of
                (snd (findOrCreateCustomer e' (snd (findOrCreateCustomer e s email (Some p) fullName))
                        email (Some p) fullName)) (c_id C)
               = alt_emails_of (snd (findOrCreateCustomer e s email (Some p) fullName)) (c_id C)"
proof -
  let ?P = "phone_matches (last10 (digits_only p))"
  have "?P D" using Dphone by (simp add: phone_matches_def)
  then have "List.find ?P (customers s) \<noteq> None" using D by (auto simp: find_None_iff)
  then obtain C where C: "List.find ?P (customers s) = Some C" by auto
  then have Cin: "C \<in> set (customers s)" and PC: "?P C"
    by (auto simp: find_Some_iff)
  have byid: "customer_by_id s (c_id C) = Some C"
    using customer_by_id_distinct [OF ids Cin] .
  define u where "u = phone_updates e C email"
  define s1 where "s1 = update_customer (c_id C) u s"
  define C1 where "C1 = u C"
  define u2 where "u2 = phone_updates e' C1 email"
  have uid: "\<And>c. c_id (u c) = c_id c" and u2id: "\<And>c. c_id (u2 c) = c_id c"
    by (simp_all add: u_def u2_def phone_updates_keeps)
  have run1: "findOrCreateCustomer e s email (Some p) fullName
      = (Inr \<lparr>res_customer = C, matchType = ''phone'', possibleMatch = None, isNew = False\<rparr>, s1)"
    unfolding s1_def u_def
    using phone_tier_run [OF customer_by_email_none [OF no_email]] phoneMatch_find [OF digits] C
    by simp
  have a0: "alt_emails_of s (c_id C) = or_empty (c_alt_emails C)"
    using byid by (simp add: alt_emails_of_def)
  have a1: "alt_emails_of s1 (c_id C) = or_empty (c_alt_emails C1)"
    unfolding s1_def C1_def using alt_emails_of_update [OF byid uid] .
  have byid1: "customer_by_id s1 (c_id C) = Some C1"
    unfolding s1_def C1_def using customer_by_id_update [OF byid uid] .
  have no_email1: "toLowerCase email \<notin> c_email ` set (customers s1)"
    unfolding s1_def using no_email update_customer_emails [of u "c_id C" s]
    by (simp add: u_def phone_updates_keeps)
  have "\<And>c. ?P (u c) = ?P c" by (simp add: phone_matches_def u_def phone_updates_keeps)
  then have find1: "List.find ?P (customers s1) = Some C1"
    unfolding s1_def C1_def using update_customer_find [of ?P u s C] C by simp
  have idC1: "c_id C1 = c_id C" by (simp add: C1_def uid)
  have run2: "findOrCreateCustomer e' s1 email (Some p) fullName
      = (Inr \<lparr>res_customer = C1, matchType = ''phone'', possibleMatch = None, isNew = False\<rparr>,
         update_customer (c_id C) u2 s1)"
    unfolding u2_def
    using phone_tier_run [OF customer_by_email_none [OF no_email1]] phoneMatch_find [OF digits]
      find1 idC1
    by simp
  have a2: "alt_emails_of (update_customer (c_id C) u2 s1) (c_id C) = or_empty (c_alt_emails (u2 C1))"
    using alt_emails_of_update [OF byid1 u2id] .
  have twice: "or_empty (c_alt_emails (u2 C1)) = or_empty (c_alt_emails C1)"
    unfolding u2_def C1_def u_def by (rule phone_updates_alts_twice)
  have once: "or_empty (c_alt_emails C1)
      = (if toLowerCase email \<in> set (or_empty (c_alt_emails C)) then or_empty (c_alt_emails C)
         else or_empty (c_alt_emails C) @ [toLowerCase email])"
    unfolding C1_def u_def by (rule phone_updates_alts)
  have "List.find ?P (customers s) = Some C
           \<and> C \<in> set (customers s)
           \<and> ?P C
           \<and> fst (findOrCreateCustomer e s email (Some p) fullName)
               = Inr \<lparr>res_customer = C, matchType = ''phone'', possibleMatch = None, isNew = False\<rparr>
           \<and> alt_emails_of (snd (findOrCreateCustomer e s email (Some p) fullName)) (c_id C)
               = (if toLowerCase email \<in> set (alt_emails_of s (c_id C)) then alt_emails_of s (c_id C)
                  else alt_emails_of s (c_id C) @ [toLowerCase email])
           \<and> map_sum id (\<lambda>r. (c_id (res_customer r), matchType r))
                (fst (findOrCreateCustomer e' (snd (findOrCreateCustomer e s email (Some p) fullName))
                        email (Some p) fullName))
               = Inr (c_id C, ''phone'')
           \<and> alt_emails_of
                (snd (findOrCreateCustomer e' (snd (findOrCreateCustomer e s email (Some p) fullName))
                        email (Some p) fullName)) (c_id C)
               = alt_emails_of (snd (findOrCreateCustomer e s email (Some p) fullName)) (c_id C)"
    unfolding run1 fst_conv snd_conv run2 a0 a1 a2 twice once
    using C Cin PC idC1 by simp
  then show ?thesis by (rule exI)
qed

theorem phone_tier_witness:
  "distinct (map c_id (customers two_customers))
   \<and> toLowerCase ''Robert@Work.com'' \<notin> c_email ` set (customers two_customers)
   \<and> 10 \<le> length (digits_only ''555-123-4567'')
   \<and> bob \<in> set (customers two_customers)
   \<and> c_phone bob = Some ''+1 (555) 123-4567''
   \<and> last10 (digits_only ''+1 (555) 123-4567'') = last10 (digits_only ''555-123-4567'')
   \<and> fst (findOrCreateCustomer (quiet 5 0) two_customers ''Robert@Work.com'' (Some ''555-123-4567'') ''Rob Ray'')
       = Inr \<lparr>res_customer = bob, matchType = ''phone'', possibleMatch = None, isNew = False\<rparr>
   \<and> alt_emails_of (snd (findOrCreateCustomer (quiet 5 0) two_customers ''Robert@Work.com''
                            (Some ''555-123-4567'') ''Rob Ray'')) (c_id bob)
       = [''b.ray@y.org'', ''robert@work.com'']
   \<and> alt_emails_of
        (snd (findOrCreateCustomer (quiet 6 0)
               (snd (findOrCreateCustomer (quiet 5 0) two_customers ''Robert@Work.com''
                       (Some ''555-123-4567'') ''Rob Ray''))
               ''Robert@Work.com'' (Some ''555-123-4567'') ''Rob Ray'')) (c_id bob)
       = [''b.ray@y.org'', ''robert@work.com'']"
proof -
  have h1: "distinct (map c_id (customers two_customers))" by code_simp
  have h2: "toLowerCase ''Robert@Work.com'' \<notin> c_email ` set (customers two_customers)" by code_simp
  have h3: "10 \<le> length (digits_only ''555-123-4567'')" by code_simp
  have h4: "bob \<in> set (customers two_customers)" by (simp add: two_customers_def)
  have h5: "c_phone bob = Some ''+1 (555) 123-4567''" by (simp add: bob_def)
  have h6: "last10 (digits_only ''+1 (555) 123-4567'') = last10 (digits_only ''555-123-4567'')"
    by code_simp
  have found: "List.find (phone_matches (last10 (digits_only ''555-123-4567''))) (customers two_customers)
      = Some bob"
    by code_simp
  have before: "alt_emails_of two_customers (c_id bob) = [''b.ray@y.org'']" by code_simp
  have lower: "toLowerCase ''Robert@Work.com'' = ''robert@work.com''" by code_simp
  obtain C where C: "List.find (phone_matches (last10 (digits_only ''555-123-4567''))) (customers two_customers)
        = Some C"
    and r: "fst (findOrCreateCustomer (quiet 5 0) two_customers ''Robert@Work.com'' (Some ''555-123-4567'') ''Rob Ray'')
       = Inr \<lparr>res_customer = C, matchType = ''phone'', possibleMatch = None, isNew = False\<rparr>"
    and a1: "alt_emails_of (snd (findOrCreateCustomer (quiet 5 0) two_customers ''Robert@Work.com''
                            (Some ''555-123-4567'') ''Rob Ray'')) (c_id C)
       = (if toLowerCase ''Robert@Work.com'' \<in> set (alt_emails_of two_customers (c_id C))
          then alt_emails_of two_customers (c_id C)
          else alt_emails_of two_customers (c_id C) @ [toLowerCase ''Robert@Work.com''])"
    and a2: "alt_emails_of
        (snd (findOrCreateCustomer (quiet 6 0)
               (snd (findOrCreateCustomer (quiet 5 0) two_customers ''Robert@Work.com''
                       (Some ''555-123-4567'') ''Rob Ray''))
               ''Robert@Work.com'' (Some ''555-123-4567'') ''Rob Ray'')) (c_id C)
       = alt_emails_of (snd (findOrCreateCustomer (quiet 5 0) two_customers ''Robert@Work.com''
                            (Some ''555-123-4567'') ''Rob Ray'')) (c_id C)"
    using phone_tier [OF h1 h2 h3 h4 h5 h6, of "quiet 5 0" "''Rob Ray''" "quiet 6 0"] by blast
  have CB: "C = bob" using C found by simp
  show ?thesis
    using h1 h2 h3 h4 h5 h6 r a1 a2 unfolding CB before lower by simp
qed

section \<open>The create path under a concurrent insert\<close>

lemma create_customer_conflict:
  assumes "list_ex (\<lambda>c. c_email c = toLowerCase email) (customers (concurrent e s))"
  shows "create_customer e s email phone fullName cand = (Inl UniqueViolation, concurrent e s)"
  using assms by (simp add: create_customer_def insert_customer_def)

text \<open>
  C4, as the spec states it: a unique-constraint violation met by the insert of a new
  customer, because a concurrent event created the same customer, is handled by resolving
  again and is never passed to the caller. It fails: on the empty store the look-ups
  find no customer, a concurrent contact with the same email creates one, the insert is
  refused, and \<open>findOrCreateCustomer\<close> throws the error, which the webhook answers
  with status 500.
\<close>

theorem unique_violation_propagates_counterexample:
  "customer_by_email empty_store (toLowerCase ''ann@x.com'') = None
   \<and> map c_email (customers (concurrent racing empty_store)) = [''ann@x.com'']
   \<and> fst (findOrCreateCustomer racing empty_store ''ann@x.com'' None ''Ann Lee'') = Inl UniqueViolation
   \<and> fst (webhook_contact_form racing empty_store (contact ''Ann'' ''Lee'' ''ann@x.com'' None ''hello''))
       = Status500 UniqueViolation"
  by code_simp

text \<open>
  C4, amended: when neither the email nor the phone look-up finds a customer and, by the
  time of the insert, a concurrent request has stored a customer with the same primary
  email, the insert is refused by the store's unique constraint and
  \<open>findOrCreateCustomer\<close> passes the violation to its caller without resolving
  again; the webhook answers with status 500. The refused insert adds no record: the
  store is the one the concurrent request left. (A webhook request whose purpose makes
  the classification throw is answered with status 500 as well, before the look-ups.)
\<close>

theorem create_path_conflict:
  assumes "customer_by_email s (toLowerCase email) = None"
    and "phoneMatch s phone = None"
    and "list_ex (\<lambda>c. c_email c = toLowerCase email) (customers (concurrent e s))"
  shows "findOrCreateCustomer e s email phone fullName = (Inl UniqueViolation, concurrent e s)
     \<and> (\<not> falsy (f_first_name req) \<and> \<not> falsy (f_email req) \<and> \<not> falsy (f_message req)
          \<and> str_or (f_email req) [] = email \<and> f_phone req = phone
          \<and> form_name req = fullName
        \<longrightarrow> webhook_contact_form e s req =
              (case generateAutoTags (str_or (f_purpose req) ''Other'') (str_or (f_message req) []) of
                 Inl err \<Rightarrow> (Status500 err, s)
               | Inr autoTags \<Rightarrow> (Status500 UniqueViolation, concurrent e s)))"
proof -
  have run: "findOrCreateCustomer e s email phone fullName = (Inl UniqueViolation, concurrent e s)"
    using assms(1,2) create_customer_conflict [OF assms(3)]
    by (simp add: findOrCreateCustomer_def)
  then show ?thesis by (auto simp: webhook_contact_form_def Let_def split: sum.splits)
qed

theorem create_path_conflict_witness:
  "customer_by_email empty_store (toLowerCase ''ann@x.com'') = None
   \<and> phoneMatch empty_store None = None
   \<and> list_ex (\<lambda>c. c_email c = toLowerCase ''ann@x.com'') (customers (concurrent racing empty_store))
   \<and> findOrCreateCustomer racing empty_store ''ann@x.com'' None ''Ann Lee''
       = (Inl UniqueViolation, concurrent racing empty_store)
   \<and> webhook_contact_form racing empty_store (contact ''Ann'' ''Lee'' ''ann@x.com'' None ''hello'')
       = (Status500 UniqueViolation, concurrent racing empty_store)
   \<and> length (customers (concurrent racing empty_store)) = 1"
proof -
  have h1: "customer_by_email empty_store (toLowerCase ''ann@x.com'') = None" by code_simp
  have h2: "phoneMatch empty_store None = None" by code_simp
  have h3: "list_ex (\<lambda>c. c_email c = toLowerCase ''ann@x.com'') (customers (concurrent racing empty_store))"
    by code_simp
  have v: "\<not> falsy (f_first_name (contact ''Ann'' ''Lee'' ''ann@x.com'' None ''hello''))
     \<and> \<not> falsy (f_email (contact ''Ann'' ''Lee'' ''ann@x.com'' None ''hello''))
     \<and> \<not> falsy (f_message (contact ''Ann'' ''Lee'' ''ann@x.com'' None ''hello''))
     \<and> str_or (f_email (contact ''Ann'' ''Lee'' ''ann@x.com'' None ''hello'')) [] = ''ann@x.com''
     \<and> f_phone (contact ''Ann'' ''Lee'' ''ann@x.com'' None ''hello'') = None
     \<and> form_name (contact ''Ann'' ''Lee'' ''ann@x.com'' None ''hello'') = ''Ann Lee''"
    by code_simp
  have n: "length (customers (concurrent racing empty_store)) = 1" by code_simp
  have g: "generateAutoTags (str_or (f_purpose (contact ''Ann'' ''Lee'' ''ann@x.com'' None ''hello'')) ''Other'')
             (str_or (f_message (contact ''Ann'' ''Lee'' ''ann@x.com'' None ''hello'')) [])
           = Inr [''General inquiry'']"
    by code_simp
  show ?thesis
    using create_path_conflict [OF h1 h2 h3, of "''Ann Lee''" "contact ''Ann'' ''Lee'' ''ann@x.com'' None ''hello''"]
      h1 h2 h3 v n g
    by simp
qed

section \<open>Merges\<close>

lemma set_list_acc:
  "set (foldl (\<lambda>acc x. if x \<in> set acc then acc else acc @ [x]) acc xs) = set acc \<union> set xs"
  by (induction xs arbitrary: acc) auto

lemma set_set_list: "set (set_list xs) = set xs"
  by (simp add: set_list_def set_list_acc)

lemma attempt_tickets:
  "tickets (attempt e DeleteSecondary (delete_customer i) s) = tickets s"
  "tickets (attempt e ClearDuplicates (clear_duplicate_refs i) s) = tickets s"
  "tickets (attempt e UpdatePrimary (update_customer j f) s) = tickets s"
  by (simp_all add: attempt_def delete_customer_def clear_duplicate_refs_def update_customer_def)

text \<open>
  C3, as the spec states it: if any step of a merge fails, no step's effect is persisted.
  It fails: when the update of the primary customer fails, the tickets have already been
  reassigned, the failure goes unnoticed (the result of the call is dropped), the
  secondary is deleted, and the merge reports success. The store is not the one before
  the call: both tickets belong to customer 1, whose row is unchanged, and customer 2 is
  gone with its tags and emails. (Had the client thrown the error instead of returning
  it, the merge would have stopped at that call, with the tickets reassigned all the same.)
\<close>

theorem merge_not_atomic_counterexample:
  "fails update_fails UpdatePrimary
   \<and> customer_by_id two_customers 1 = Some ann \<and> customer_by_id two_customers 2 = Some bob
   \<and> snd (merge_customers update_fails two_customers (Some 1) (Some 2)) \<noteq> two_customers
   \<and> map t_customer_id (tickets (snd (merge_customers update_fails two_customers (Some 1) (Some 2)))) = [1, 1]
   \<and> customers (snd (merge_customers update_fails two_customers (Some 1) (Some 2))) = [ann]"
  by code_simp

lemma customer_by_id_absent: "i \<notin> c_id ` set (customers s) \<Longrightarrow> customer_by_id s i = None"
proof -
  assume "i \<notin> c_id ` set (customers s)"
  then have "filter (\<lambda>c. c_id c = i) (customers s) = []" by (auto simp: filter_empty_conv)
  then show ?thesis by (simp add: customer_by_id_def single_def)
qed

lemma filter_id_other:
  "pid \<noteq> sid \<Longrightarrow> filter (\<lambda>c. c_id c = pid) (filter (\<lambda>c. c_id c \<noteq> sid) cs) = filter (\<lambda>c. c_id c = pid) cs"
  by (induction cs) auto

text \<open>How each write of the merge acts on the look-up of a customer.\<close>

lemma customer_by_id_move: "customer_by_id (move_tickets sid pid s) i = customer_by_id s i"
  by (simp add: customer_by_id_def move_tickets_def)

lemma customer_by_id_clear:
  "customer_by_id s i = Some C \<Longrightarrow> c_possible_duplicate_of C = None
     \<Longrightarrow> customer_by_id (clear_duplicate_refs sid s) i = Some C"
proof -
  let ?clr = "\<lambda>c. if c_possible_duplicate_of c = Some sid then c\<lparr>c_possible_duplicate_of := None\<rparr> else c"
  assume C: "customer_by_id s i = Some C" and dup: "c_possible_duplicate_of C = None"
  have rows: "filter (\<lambda>c. c_id c = i) (customers s) = [C]"
    using C by (simp add: customer_by_id_def single_Some)
  have "\<And>c. c_id (?clr c) = c_id c" by simp
  then have "filter (\<lambda>c. c_id c = i) (map ?clr (customers s)) = map ?clr (filter (\<lambda>c. c_id c = i) (customers s))"
    by (rule filter_key_map)
  then have "filter (\<lambda>c. c_id c = i) (map ?clr (customers s)) = [C]"
    using rows dup by simp
  then show ?thesis by (simp add: customer_by_id_def clear_duplicate_refs_def single_def)
qed

lemma customer_by_id_delete:
  "pid \<noteq> sid \<Longrightarrow> customer_by_id (delete_customer sid s) pid = customer_by_id s pid"
  using filter_id_other [of pid sid "customers s"] by (simp add: customer_by_id_def delete_customer_def)

lemma merge_run:
  assumes "customer_by_id s pid = Some P" "customer_by_id s sid = Some S"
    and "pid \<noteq> sid" "pid \<noteq> 0" "sid \<noteq> 0"
  shows "merge_customers e s (Some pid) (Some sid)
     = (if fails e MoveTickets then (Status500 StoreFailure, s)
        else (Status200 \<lparr>mr_primary = (pid, c_name P, c_email P),
                         mr_secondary = (sid, c_name S, c_email S),
                         ticketsMoved = c_ticket_count S\<rparr>,
              attempt e DeleteSecondary (delete_customer sid)
                (attempt e ClearDuplicates (clear_duplicate_refs sid)
                  (attempt e UpdatePrimary (update_customer pid (merge_updates e P S))
                     (move_tickets sid pid s)))))"
  using assms
  by (simp add: merge_customers_def falsy_id_def or_zero_def Let_def)

lemma merge_unchanged_on_first_failure:
  "fails e MoveTickets \<Longrightarrow> snd (merge_customers e s primary_id secondary_id) = s"
  by (auto simp: merge_customers_def Let_def split: option.splits)

lemma merged_tickets:
  "tickets (attempt e DeleteSecondary (delete_customer sid)
      (attempt e ClearDuplicates (clear_duplicate_refs sid)
        (attempt e UpdatePrimary (update_customer pid f) (move_tickets sid pid s))))
     = map (\<lambda>t. if t_customer_id t = sid then t\<lparr>t_customer_id := pid\<rparr> else t) (tickets s)"
  by (simp add: attempt_tickets move_tickets_def)

text \<open>The primary customer once the tickets are moved and its row is updated.\<close>

lemma merged_primary:
  assumes P: "customer_by_id s pid = Some P" and ne: "pid \<noteq> sid"
    and ok: "\<not> fails e UpdatePrimary"
  shows "customer_by_id
           (attempt e DeleteSecondary (delete_customer sid)
             (attempt e ClearDuplicates (clear_duplicate_refs sid)
               (attempt e UpdatePrimary (update_customer pid (merge_updates e P S))
                  (move_tickets sid pid s)))) pid
         = Some (merge_updates e P S P)"
proof -
  let ?f = "merge_updates e P S"
  have fid: "\<And>c. c_id (?f c) = c_id c" by (simp add: merge_updates_def)
  have fdup: "c_possible_duplicate_of (?f P) = None" by (simp add: merge_updates_def)
  have a: "customer_by_id (move_tickets sid pid s) pid = Some P"
    using P by (simp add: customer_by_id_move)
  have b: "customer_by_id (attempt e UpdatePrimary (update_customer pid ?f) (move_tickets sid pid s)) pid
      = Some (?f P)"
    using ok customer_by_id_update [OF a fid] by (simp add: attempt_def)
  have c: "customer_by_id (attempt e ClearDuplicates (clear_duplicate_refs sid)
      (attempt e UpdatePrimary (update_customer pid ?f) (move_tickets sid pid s))) pid = Some (?f P)"
    using b customer_by_id_clear [OF b fdup] by (simp add: attempt_def)
  show ?thesis
    using c customer_by_id_delete [OF ne] by (simp add: attempt_def)
qed

lemma merged_no_reference:
  assumes "\<not> fails e ClearDuplicates"
  shows "Some sid \<notin> c_possible_duplicate_of
           ` set (customers (attempt e DeleteSecondary (delete_customer sid)
                    (attempt e ClearDuplicates (clear_duplicate_refs sid) s)))"
  using assms by (auto simp: attempt_def delete_customer_def clear_duplicate_refs_def)

lemma merged_no_secondary:
  assumes "\<not> fails e DeleteSecondary"
  shows "sid \<notin> c_id ` set (customers (attempt e DeleteSecondary (delete_customer sid) s))"
  using assms by (auto simp: attempt_def delete_customer_def)

text \<open>The fields of the updated primary, written out.\<close>

lemma merge_updates_fields:
  "c_id (merge_updates e P S P) = c_id P
   \<and> c_name (merge_updates e P S P) = c_name P
   \<and> c_email (merge_updates e P S P) = c_email P
   \<and> c_phone (merge_updates e P S P)
       = (case c_phone P of None \<Rightarrow> c_phone S | Some p \<Rightarrow> if p = [] then c_phone S else Some p)
   \<and> (\<exists>tags. c_tags (merge_updates e P S P) = Some tags
         \<and> set tags = (case c_tags P of None \<Rightarrow> {} | Some xs \<Rightarrow> set xs)
                        \<union> (case c_tags S of None \<Rightarrow> {} | Some xs \<Rightarrow> set xs))
   \<and> (\<exists>alts. c_alt_emails (merge_updates e P S P) = Some alts
         \<and> set alts = ((case c_alt_emails P of None \<Rightarrow> {} | Some xs \<Rightarrow> set xs)
                         \<union> (case c_alt_emails S of None \<Rightarrow> {} | Some xs \<Rightarrow> set xs)
                         \<union> {c_email S}) - {c_email P})
   \<and> c_shopify_order_count (merge_updates e P S P)
       = Some (max (case c_shopify_order_count P of None \<Rightarrow> 0 | Some n \<Rightarrow> n)
                   (case c_shopify_order_count S of None \<Rightarrow> 0 | Some n \<Rightarrow> n))
   \<and> c_shopify_ltv (merge_updates e P S P)
       = Some (max (case c_shopify_ltv P of None \<Rightarrow> 0 | Some v \<Rightarrow> v)
                   (case c_shopify_ltv S of None \<Rightarrow> 0 | Some v \<Rightarrow> v))
   \<and> c_ticket_count (merge_updates e P S P) = c_ticket_count P + c_ticket_count S
   \<and> c_possible_duplicate_of (merge_updates e P S P) = None"
  by (auto simp: merge_updates_def or_empty_def or_zero_def or_str_def truthy_def set_set_list
      split: option.splits)

text \<open>
  C3, amended: a merge is not atomic. Its four writes are separate calls to the store and
  nothing is rolled back. For two distinct existing customers: if the first write, the
  reassignment of the tickets, fails, the merge answers with status 500 and the store is
  exactly as it was before the call (as it is whenever that write fails). If a later
  write fails, what the writes before it did stays in the store: the tickets stay
  reassigned; if the update of the primary was also done, the primary keeps its merged
  fields; if the duplicate pointers were also cleared, no customer points at the
  secondary; and if the deletion was done as well, the secondary is gone.
\<close>

theorem merge_keeps_completed_steps:
  assumes P: "customer_by_id s pid = Some P" and S: "customer_by_id s sid = Some S"
    and ne: "pid \<noteq> sid" and truthy_ids: "pid \<noteq> 0" "sid \<noteq> 0"
  shows "(fails e MoveTickets \<longrightarrow>
            merge_customers e s (Some pid) (Some sid) = (Status500 StoreFailure, s)
            \<and> snd (merge_customers e s primary_id secondary_id) = s)
       \<and> (\<not> fails e MoveTickets \<longrightarrow>
            tickets (snd (merge_customers e s (Some pid) (Some sid)))
              = map (\<lambda>t. if t_customer_id t = sid then t\<lparr>t_customer_id := pid\<rparr> else t) (tickets s))
       \<and> (\<not> fails e MoveTickets \<and> \<not> fails e UpdatePrimary \<longrightarrow>
            (\<exists>P'. customer_by_id (snd (merge_customers e s (Some pid) (Some sid))) pid = Some P'
             \<and> c_name P' = c_name P \<and> c_email P' = c_email P
             \<and> c_phone P' = (case c_phone P of None \<Rightarrow> c_phone S
                               | Some p \<Rightarrow> if p = [] then c_phone S else Some p)
             \<and> (\<exists>tags. c_tags P' = Some tags
                   \<and> set tags = (case c_tags P of None \<Rightarrow> {} | Some xs \<Rightarrow> set xs)
                                  \<union> (case c_tags S of None \<Rightarrow> {} | Some xs \<Rightarrow> set xs))
             \<and> (\<exists>alts. c_alt_emails P' = Some alts
                   \<and> set alts = ((case c_alt_emails P of None \<Rightarrow> {} | Some xs \<Rightarrow> set xs)
                                   \<union> (case c_alt_emails S of None \<Rightarrow> {} | Some xs \<Rightarrow> set xs)
                                   \<union> {c_email S}) - {c_email P})
             \<and> c_shopify_order_count P'
                 = Some (max (case c_shopify_order_count P of None \<Rightarrow> 0 | Some n \<Rightarrow> n)
                             (case c_shopify_order_count S of None \<Rightarrow> 0 | Some n \<Rightarrow> n))
             \<and> c_shopify_ltv P'
                 = Some (max (case c_shopify_ltv P of None \<Rightarrow> 0 | Some v \<Rightarrow> v)
                             (case c_shopify_ltv S of None \<Rightarrow> 0 | Some v \<Rightarrow> v))
             \<and> c_ticket_count P' = c_ticket_count P + c_ticket_count S
             \<and> c_possible_duplicate_of P' = None))
       \<and> (\<not> fails e MoveTickets \<and> \<not> fails e UpdatePrimary \<and> \<not> fails e ClearDuplicates \<longrightarrow>
            Some sid \<notin> c_possible_duplicate_of
              ` set (customers (snd (merge_customers e s (Some pid) (Some sid)))))
       \<and> (\<not> fails e MoveTickets \<and> \<not> fails e UpdatePrimary \<and> \<not> fails e ClearDuplicates
            \<and> \<not> fails e DeleteSecondary \<longrightarrow>
            sid \<notin> c_id ` set (customers (snd (merge_customers e s (Some pid) (Some sid)))))"
proof -
  note run = merge_run [OF P S ne truthy_ids, of e]
  have first: "fails e MoveTickets \<Longrightarrow>
            merge_customers e s (Some pid) (Some sid) = (Status500 StoreFailure, s)
            \<and> snd (merge_customers e s primary_id secondary_id) = s"
    using run merge_unchanged_on_first_failure [of e s primary_id secondary_id] by simp
  have moved: "\<not> fails e MoveTickets \<Longrightarrow>
            tickets (snd (merge_customers e s (Some pid) (Some sid)))
              = map (\<lambda>t. if t_customer_id t = sid then t\<lparr>t_customer_id := pid\<rparr> else t) (tickets s)"
    using run by (simp add: merged_tickets)
  have prim: "\<not> fails e MoveTickets \<Longrightarrow> \<not> fails e UpdatePrimary \<Longrightarrow>
      customer_by_id (snd (merge_customers e s (Some pid) (Some sid))) pid = Some (merge_updates e P S P)"
    using run merged_primary [OF P ne, of e S] by simp
  have updated: "\<not> fails e MoveTickets \<Longrightarrow> \<not> fails e UpdatePrimary \<Longrightarrow>
            (\<exists>P'. customer_by_id (snd (merge_customers e s (Some pid) (Some sid))) pid = Some P'
             \<and> c_name P' = c_name P \<and> c_email P' = c_email P
             \<and> c_phone P' = (case c_phone P of None \<Rightarrow> c_phone S
                               | Some p \<Rightarrow> if p = [] then c_phone S else Some p)
             \<and> (\<exists>tags. c_tags P' = Some tags
                   \<and> set tags = (case c_tags P of None \<Rightarrow> {} | Some xs \<Rightarrow> set xs)
                                  \<union> (case c_tags S of None \<Rightarrow> {} | Some xs \<Rightarrow> set xs))
             \<and> (\<exists>alts. c_alt_emails P' = Some alts
                   \<and> set alts = ((case c_alt_emails P of None \<Rightarrow> {} | Some xs \<Rightarrow> set xs)
                                   \<union> (case c_alt_emails S of None \<Rightarrow> {} | Some xs \<Rightarrow> set xs)
                                   \<union> {c_email S}) - {c_email P})
             \<and> c_shopify_order_count P'
                 = Some (max (case c_shopify_order_count P of None \<Rightarrow> 0 | Some n \<Rightarrow> n)
                             (case c_shopify_order_count S of None \<Rightarrow> 0 | Some n \<Rightarrow> n))
             \<and> c_shopify_ltv P'
                 = Some (max (case c_shopify_ltv P of None \<Rightarrow> 0 | Some v \<Rightarrow> v)
                             (case c_shopify_ltv S of None \<Rightarrow> 0 | Some v \<Rightarrow> v))
             \<and> c_ticket_count P' = c_ticket_count P + c_ticket_count S
             \<and> c_possible_duplicate_of P' = None)"
    using prim merge_updates_fields [of e P S] by blast
  have cleared: "\<not> fails e MoveTickets \<Longrightarrow> \<not> fails e ClearDuplicates \<Longrightarrow>
            Some sid \<notin> c_possible_duplicate_of
              ` set (customers (snd (merge_customers e s (Some pid) (Some sid))))"
    using run merged_no_reference [of e sid] by simp
  have deleted: "\<not> fails e MoveTickets \<Longrightarrow> \<not> fails e DeleteSecondary \<Longrightarrow>
            sid \<notin> c_id ` set (customers (snd (merge_customers e s (Some pid) (Some sid))))"
    using run merged_no_secondary [of e sid] by simp
  show ?thesis using first moved updated cleared deleted by blast
qed

theorem merge_keeps_completed_steps_witness:
  "customer_by_id two_customers 1 = Some ann \<and> customer_by_id two_customers 2 = Some bob
   \<and> fails move_fails MoveTickets
   \<and> merge_customers move_fails two_customers (Some 1) (Some 2) = (Status500 StoreFailure, two_customers)
   \<and> \<not> fails update_fails MoveTickets
   \<and> map t_customer_id (tickets (snd (merge_customers update_fails two_customers (Some 1) (Some 2))))
       = [1, 1]
   \<and> \<not> fails delete_fails MoveTickets \<and> \<not> fails delete_fails UpdatePrimary
   \<and> \<not> fails delete_fails ClearDuplicates
   \<and> customer_by_id (snd (merge_customers delete_fails two_customers (Some 1) (Some 2))) 1
       = Some \<lparr>c_id = 1, c_name = ''Ann Lee'', c_email = ''ann@x.com'',
                 c_phone = Some ''+1 (555) 123-4567'',
                 c_alt_emails = Some [''b.ray@y.org'', ''bob@y.org''], c_tags = Some [''VIP''],
                 c_ticket_count = 2, c_possible_duplicate_of = None,
                 c_shopify_customer_id = None, c_shopify_order_count = Some 3,
                 c_shopify_ltv = Some 120, c_updated_at = 10\<rparr>
   \<and> Some 2 \<notin> c_possible_duplicate_of
        ` set (customers (snd (merge_customers delete_fails two_customers (Some 1) (Some 2))))"
proof -
  have a: "customer_by_id two_customers 1 = Some ann" by code_simp
  have b: "customer_by_id two_customers 2 = Some bob" by code_simp
  have f: "fails move_fails MoveTickets" "\<not> fails update_fails MoveTickets"
    "\<not> fails delete_fails MoveTickets" "\<not> fails delete_fails UpdatePrimary"
    "\<not> fails delete_fails ClearDuplicates"
    by (simp_all add: move_fails_def update_fails_def delete_fails_def)
  have t: "map t_customer_id
      (map (\<lambda>t. if t_customer_id t = 2 then t\<lparr>t_customer_id := 1\<rparr> else t) (tickets two_customers))
      = [1, 1]"
    by (simp add: two_customers_def ann_ticket_def bob_ticket_def)
  have m: "customer_by_id (snd (merge_customers delete_fails two_customers (Some 1) (Some 2))) 1
       = Some \<lparr>c_id = 1, c_name = ''Ann Lee'', c_email = ''ann@x.com'',
                 c_phone = Some ''+1 (555) 123-4567'',
                 c_alt_emails = Some [''b.ray@y.org'', ''bob@y.org''], c_tags = Some [''VIP''],
                 c_ticket_count = 2, c_possible_duplicate_of = None,
                 c_shopify_customer_id = None, c_shopify_order_count = Some 3,
                 c_shopify_ltv = Some 120, c_updated_at = 10\<rparr>"
    by code_simp
  note th1 = merge_keeps_completed_steps [OF a b, of move_fails "Some 1" "Some 2"]
  note th2 = merge_keeps_completed_steps [OF a b, of update_fails "Some 1" "Some 2"]
  note th3 = merge_keeps_completed_steps [OF a b, of delete_fails "Some 1" "Some 2"]
  have c1: "merge_customers move_fails two_customers (Some 1) (Some 2) = (Status500 StoreFailure, two_customers)"
    using th1 f by simp
  have c2: "map t_customer_id (tickets (snd (merge_customers update_fails two_customers (Some 1) (Some 2))))
       = [1, 1]"
    using th2 f t by simp
  have c3: "Some 2 \<notin> c_possible_duplicate_of
        ` set (customers (snd (merge_customers delete_fails two_customers (Some 1) (Some 2))))"
    using th3 f by simp
  show ?thesis using a b f c1 c2 m c3 by simp
qed

text \<open>
  C6: let P and S be the customers with the distinct identifiers \<open>pid\<close> and
  \<open>sid\<close> (neither falsy), and let every write succeed. Merging S into P answers 200;
  every ticket of S belongs to P afterwards and S owns none; P's tags are the union of
  both tag sets; its alternate emails are the union of both sets and S's primary email,
  without P's own primary email; its phone is P's, or S's when P's is absent or empty; its
  order count and lifetime value are the maxima of the two (an absent value counting as
  0); its ticket count is the sum; its duplicate pointer is cleared; S is deleted; and no
  customer's duplicate pointer refers to S.
\<close>

theorem merge_effects:
  assumes P: "customer_by_id s pid = Some P" and S: "customer_by_id s sid = Some S"
    and ne: "pid \<noteq> sid" and truthy_ids: "pid \<noteq> 0" "sid \<noteq> 0"
  shows "fst (merge_customers (quiet n k) s (Some pid) (Some sid))
           = Status200 \<lparr>mr_primary = (pid, c_name P, c_email P),
                        mr_secondary = (sid, c_name S, c_email S),
                        ticketsMoved = c_ticket_count S\<rparr>
       \<and> tickets (snd (merge_customers (quiet n k) s (Some pid) (Some sid)))
           = map (\<lambda>t. if t_customer_id t = sid then t\<lparr>t_customer_id := pid\<rparr> else t) (tickets s)
       \<and> filter (\<lambda>t. t_customer_id t = sid)
           (tickets (snd (merge_customers (quiet n k) s (Some pid) (Some sid)))) = []
       \<and> (\<exists>P'. customer_by_id (snd (merge_customers (quiet n k) s (Some pid) (Some sid))) pid = Some P'
             \<and> c_name P' = c_name P \<and> c_email P' = c_email P
             \<and> c_phone P' = (case c_phone P of None \<Rightarrow> c_phone S
                               | Some p \<Rightarrow> if p = [] then c_phone S else Some p)
             \<and> (\<exists>tags. c_tags P' = Some tags
                   \<and> set tags = (case c_tags P of None \<Rightarrow> {} | Some xs \<Rightarrow> set xs)
                                  \<union> (case c_tags S of None \<Rightarrow> {} | Some xs \<Rightarrow> set xs))
             \<and> (\<exists>alts. c_alt_emails P' = Some alts
                   \<and> set alts = ((case c_alt_emails P of None \<Rightarrow> {} | Some xs \<Rightarrow> set xs)
                                   \<union> (case c_alt_emails S of None \<Rightarrow> {} | Some xs \<Rightarrow> set xs)
                                   \<union> {c_email S}) - {c_email P})
             \<and> c_shopify_order_count P'
                 = Some (max (case c_shopify_order_count P of None \<Rightarrow> 0 | Some n \<Rightarrow> n)
                             (case c_shopify_order_count S of None \<Rightarrow> 0 | Some n \<Rightarrow> n))
             \<and> c_shopify_ltv P'
                 = Some (max (case c_shopify_ltv P of None \<Rightarrow> 0 | Some v \<Rightarrow> v)
                             (case c_shopify_ltv S of None \<Rightarrow> 0 | Some v \<Rightarrow> v))
             \<and> c_ticket_count P' = c_ticket_count P + c_ticket_count S
             \<and> c_possible_duplicate_of P' = None)
       \<and> sid \<notin> c_id ` set (customers (snd (merge_customers (quiet n k) s (Some pid) (Some sid))))
       \<and> customer_by_id (snd (merge_customers (quiet n k) s (Some pid) (Some sid))) sid = None
       \<and> Some sid \<notin> c_possible_duplicate_of
             ` set (customers (snd (merge_customers (quiet n k) s (Some pid) (Some sid))))"
proof -
  define s' where "s' = snd (merge_customers (quiet n k) s (Some pid) (Some sid))"
  have q: "\<not> fails (quiet n k) MoveTickets" "\<not> fails (quiet n k) UpdatePrimary"
    "\<not> fails (quiet n k) ClearDuplicates" "\<not> fails (quiet n k) DeleteSecondary"
    by (simp_all add: quiet_def)
  note run = merge_run [OF P S ne truthy_ids, of "quiet n k"]
  have r: "fst (merge_customers (quiet n k) s (Some pid) (Some sid))
           = Status200 \<lparr>mr_primary = (pid, c_name P, c_email P),
                        mr_secondary = (sid, c_name S, c_email S),
                        ticketsMoved = c_ticket_count S\<rparr>"
    using run q by simp
  have tk: "tickets s' = map (\<lambda>t. if t_customer_id t = sid then t\<lparr>t_customer_id := pid\<rparr> else t) (tickets s)"
    unfolding s'_def using run q by (simp add: merged_tickets)
  have own: "filter (\<lambda>t. t_customer_id t = sid) (tickets s') = []"
    unfolding tk using ne by (auto simp: filter_empty_conv)
  have prim: "customer_by_id s' pid = Some (merge_updates (quiet n k) P S P)"
    unfolding s'_def using run q merged_primary [OF P ne q(2), of S] by simp
  have fields: "\<exists>P'. customer_by_id s' pid = Some P'
             \<and> c_name P' = c_name P \<and> c_email P' = c_email P
             \<and> c_phone P' = (case c_phone P of None \<Rightarrow> c_phone S
                               | Some p \<Rightarrow> if p = [] then c_phone S else Some p)
             \<and> (\<exists>tags. c_tags P' = Some tags
                   \<and> set tags = (case c_tags P of None \<Rightarrow> {} | Some xs \<Rightarrow> set xs)
                                  \<union> (case c_tags S of None \<Rightarrow> {} | Some xs \<Rightarrow> set xs))
             \<and> (\<exists>alts. c_alt_emails P' = Some alts
                   \<and> set alts = ((case c_alt_emails P of None \<Rightarrow> {} | Some xs \<Rightarrow> set xs)
                                   \<union> (case c_alt_emails S of None \<Rightarrow> {} | Some xs \<Rightarrow> set xs)
                                   \<union> {c_email S}) - {c_email P})
             \<and> c_shopify_order_count P'
                 = Some (max (case c_shopify_order_count P of None \<Rightarrow> 0 | Some n \<Rightarrow> n)
                             (case c_shopify_order_count S of None \<Rightarrow> 0 | Some n \<Rightarrow> n))
             \<and> c_shopify_ltv P'
                 = Some (max (case c_shopify_ltv P of None \<Rightarrow> 0 | Some v \<Rightarrow> v)
                             (case c_shopify_ltv S of None \<Rightarrow> 0 | Some v \<Rightarrow> v))
             \<and> c_ticket_count P' = c_ticket_count P + c_ticket_count S
             \<and> c_possible_duplicate_of P' = None"
    using prim merge_updates_fields [of "quiet n k" P S] by blast
  have gone: "sid \<notin> c_id ` set (customers s')"
    unfolding s'_def using run q merged_no_secondary [OF q(4), of sid] by simp
  have refs: "Some sid \<notin> c_possible_duplicate_of ` set (customers s')"
    unfolding s'_def using run q merged_no_reference [OF q(3), of sid] by simp
  show ?thesis
    using r tk own fields gone refs customer_by_id_absent [OF gone] unfolding s'_def by blast
qed

theorem merge_effects_witness:
  "customer_by_id two_customers 1 = Some ann \<and> customer_by_id two_customers 2 = Some bob
   \<and> c_phone ann = None \<and> c_phone bob = Some ''+1 (555) 123-4567''
   \<and> fst (merge_customers (quiet 10 0) two_customers (Some 1) (Some 2))
       = Status200 \<lparr>mr_primary = (1, ''Ann Lee'', ''ann@x.com''),
                    mr_secondary = (2, ''Bob Ray'', ''bob@y.org''),
                    ticketsMoved = 1\<rparr>
   \<and> map t_customer_id (tickets (snd (merge_customers (quiet 10 0) two_customers (Some 1) (Some 2))))
       = [1, 1]
   \<and> customers (snd (merge_customers (quiet 10 0) two_customers (Some 1) (Some 2)))
       = [\<lparr>c_id = 1, c_name = ''Ann Lee'', c_email = ''ann@x.com'',
                 c_phone = Some ''+1 (555) 123-4567'',
                 c_alt_emails = Some [''b.ray@y.org'', ''bob@y.org''], c_tags = Some [''VIP''],
                 c_ticket_count = 2, c_possible_duplicate_of = None,
                 c_shopify_customer_id = None, c_shopify_order_count = Some 3,
                 c_shopify_ltv = Some 120, c_updated_at = 10\<rparr>]
   \<and> customer_by_id (snd (merge_customers (quiet 10 0) two_customers (Some 1) (Some 2))) 2 = None"
proof -
  have a: "customer_by_id two_customers 1 = Some ann" by code_simp
  have b: "customer_by_id two_customers 2 = Some bob" by code_simp
  have t: "map t_customer_id
      (map (\<lambda>t. if t_customer_id t = 2 then t\<lparr>t_customer_id := 1\<rparr> else t) (tickets two_customers))
      = [1, 1]"
    by (simp add: two_customers_def ann_ticket_def bob_ticket_def)
  have cs: "customers (snd (merge_customers (quiet 10 0) two_customers (Some 1) (Some 2)))
       = [\<lparr>c_id = 1, c_name = ''Ann Lee'', c_email = ''ann@x.com'',
                 c_phone = Some ''+1 (555) 123-4567'',
                 c_alt_emails = Some [''b.ray@y.org'', ''bob@y.org''], c_tags = Some [''VIP''],
                 c_ticket_count = 2, c_possible_duplicate_of = None,
                 c_shopify_customer_id = None, c_shopify_order_count = Some 3,
                 c_shopify_ltv = Some 120, c_updated_at = 10\<rparr>]"
    by code_simp
  have ph: "c_phone ann = None \<and> c_phone bob = Some ''+1 (555) 123-4567''"
    by (simp add: ann_def bob_def)
  note th = merge_effects [OF a b, of 10 0]
  have r: "fst (merge_customers (quiet 10 0) two_customers (Some 1) (Some 2))
       = Status200 \<lparr>mr_primary = (1, ''Ann Lee'', ''ann@x.com''),
                    mr_secondary = (2, ''Bob Ray'', ''bob@y.org''),
                    ticketsMoved = 1\<rparr>"
    using th by (simp add: ann_def bob_def)
  have tk: "map t_customer_id (tickets (snd (merge_customers (quiet 10 0) two_customers (Some 1) (Some 2))))
       = [1, 1]"
    using th t by simp
  have gone: "customer_by_id (snd (merge_customers (quiet 10 0) two_customers (Some 1) (Some 2))) 2 = None"
    using th by simp
  show ?thesis using a b ph r tk cs gone by simp
qed
section \<open>Threading and reopening\<close>

lemma insert_customer_messages:
  "messages (snd (insert_customer n s nm em ph dup)) = messages s"
  by (simp add: insert_customer_def Let_def)

lemma create_customer_messages:
  "messages (snd (create_customer e s email phone fullName cand)) = messages (concurrent e s)"
  using insert_customer_messages [of "now e" "concurrent e s" fullName "toLowerCase email"
      "if truthy phone then phone else None" "map_option c_id cand"]
  by (auto simp: create_customer_def split: prod.splits sum.splits)

lemma findOrCreateCustomer_messages:
  "concurrent e s = s \<Longrightarrow> messages (snd (findOrCreateCustomer e s email phone fullName)) = messages s"
  by (simp add: findOrCreateCustomer_def update_customer_def create_customer_messages
      split: option.splits)

lemma latest_member: "latest ts = Some t \<Longrightarrow> t \<in> set ts"
  by (induction ts arbitrary: t) (auto split: option.splits if_splits)

lemma latest_nonempty: "ts \<noteq> [] \<Longrightarrow> \<exists>t. latest ts = Some t"
  by (cases ts) (auto split: option.splits)

lemma latest_None: "(latest ts = None) = (ts = [])"
  by (cases ts) (auto split: option.splits)

lemma latest_newest: "latest ts = Some t \<Longrightarrow> \<forall>u \<in> set ts. t_updated_at u \<le> t_updated_at t"
proof (induction ts arbitrary: t)
  case Nil
  then show ?case by simp
next
  case (Cons a ts)
  show ?case
  proof (cases "latest ts")
    case None
    then have "ts = []" by (simp add: latest_None)
    then show ?thesis using Cons.prems by simp
  next
    case (Some v)
    have older: "\<forall>w \<in> set ts. t_updated_at w \<le> t_updated_at v"
      using Cons.IH [OF Some] .
    show ?thesis
    proof (cases "t_updated_at a < t_updated_at v")
      case True
      then have "t = v" using Cons.prems(1) Some by simp
      then show ?thesis using True older by auto
    next
      case False
      then have "t = a" using Cons.prems(1) Some by simp
      then show ?thesis using False older by fastforce
    qed
  qed
qed

lemma findOpenTicket_found:
  assumes "findOpenTicketForCustomer s cid = Some t"
  shows "t \<in> set (tickets s) \<and> t_customer_id t = cid \<and> (t_status t = Open \<or> t_status t = Pending)"
  using latest_member [OF assms [unfolded findOpenTicketForCustomer_def]] by simp

lemma findOpenTicket_same_tickets:
  "tickets s1 = tickets s \<Longrightarrow> findOpenTicketForCustomer s1 cid = findOpenTicketForCustomer s cid"
  by (simp add: findOpenTicketForCustomer_def)

lemma retag_keeps:
  "t_id (retag_and_open e found tags u) = t_id u"
  "t_customer_id (retag_and_open e found tags u) = t_customer_id u"
  "t_status (retag_and_open e found tags u) = Open"
  by (simp_all add: retag_and_open_def)

lemma owned_after_retag:
  "map t_id (filter (\<lambda>u. t_customer_id u = cid)
       (map (\<lambda>u. if t_id u = i then retag_and_open e found tags u else u) ts))
     = map t_id (filter (\<lambda>u. t_customer_id u = cid) ts)"
  by (induction ts) (auto simp: retag_keeps)

text \<open>
  One contact that is threaded onto the open ticket of its customer, when the
  classification of its purpose and message returns.
\<close>

lemma threading_step:
  assumes valid: "\<not> falsy (f_first_name req)" "\<not> falsy (f_email req)" "\<not> falsy (f_message req)"
    and cls: "generateAutoTags (str_or (f_purpose req) ''Other'') (str_or (f_message req) []) = Inr tags"
    and res: "fst (findOrCreateCustomer (quiet n k) s (str_or (f_email req) []) (f_phone req) (form_name req)) = Inr r"
    and op: "findOpenTicketForCustomer s (c_id (res_customer r)) = Some t"
  shows "fst (webhook_contact_form (quiet n k) s req)
           = Status201 \<lparr>ticket_id = t_ticket_id t, action = ''threaded'', customer_match = matchType r,
                        possible_duplicate = map_option (\<lambda>c. (c_id c, c_name c, c_email c)) (possibleMatch r)\<rparr>"
    and "tickets (snd (webhook_contact_form (quiet n k) s req))
           = map (\<lambda>u. if t_id u = t_id t then retag_and_open (quiet n k) t tags u else u) (tickets s)"
    and "messages (snd (webhook_contact_form (quiet n k) s req))
           = messages s @ [customer_message (quiet n k) req (form_name req) (t_id t) True False]"
proof -
  let ?fc = "findOrCreateCustomer (quiet n k) s (str_or (f_email req) []) (f_phone req) (form_name req)"
  have q: "concurrent (quiet n k) s = s" by (simp add: quiet_def)
  obtain s1 where fc: "?fc = (Inr r, s1)" using res by (cases ?fc) auto
  have tk: "tickets s1 = tickets s" using findOrCreateCustomer_tickets [OF q, of "str_or (f_email req) []" "f_phone req" "form_name req"] fc by simp
  have ms: "messages s1 = messages s" using findOrCreateCustomer_messages [OF q, of "str_or (f_email req) []" "f_phone req" "form_name req"] fc by simp
  have op1: "findOpenTicketForCustomer s1 (c_id (res_customer r)) = Some t"
    using findOpenTicket_same_tickets [OF tk] op by simp
  have run: "webhook_contact_form (quiet n k) s req
     = (Status201 \<lparr>ticket_id = t_ticket_id t, action = ''threaded'', customer_match = matchType r,
                        possible_duplicate = map_option (\<lambda>c. (c_id c, c_name c, c_email c)) (possibleMatch r)\<rparr>,
        update_ticket (t_id t) (retag_and_open (quiet n k) t tags)
          (insert_message (customer_message (quiet n k) req (form_name req) (t_id t) True False) s1))"
    using valid cls fc op1 by (simp add: webhook_contact_form_def route_contact_def Let_def)
  show "fst (webhook_contact_form (quiet n k) s req)
           = Status201 \<lparr>ticket_id = t_ticket_id t, action = ''threaded'', customer_match = matchType r,
                        possible_duplicate = map_option (\<lambda>c. (c_id c, c_name c, c_email c)) (possibleMatch r)\<rparr>"
    unfolding run by simp
  show "tickets (snd (webhook_contact_form (quiet n k) s req))
           = map (\<lambda>u. if t_id u = t_id t then retag_and_open (quiet n k) t tags u else u) (tickets s)"
    unfolding run by (simp add: update_ticket_def insert_message_def tk)
  show "messages (snd (webhook_contact_form (quiet n k) s req))
           = messages s @ [customer_message (quiet n k) req (form_name req) (t_id t) True False]"
    unfolding run by (simp add: update_ticket_def insert_message_def ms)
qed

lemma still_open_after:
  assumes "t \<in> set ts" "t_customer_id t = cid"
  shows "\<exists>t'. latest (filter (\<lambda>u. t_customer_id u = cid \<and> (t_status u = Open \<or> t_status u = Pending))
                     (map (\<lambda>u. if t_id u = t_id t then retag_and_open e t tags u else u) ts)) = Some t'"
proof -
  define us where "us = map (\<lambda>u. if t_id u = t_id t then retag_and_open e t tags u else u) ts"
  have m: "retag_and_open e t tags t \<in> set us"
    unfolding us_def using assms(1) by force
  have p: "t_customer_id (retag_and_open e t tags t) = cid \<and> t_status (retag_and_open e t tags t) = Open"
    using assms(2) by (simp add: retag_keeps)
  have "filter (\<lambda>u. t_customer_id u = cid \<and> (t_status u = Open \<or> t_status u = Pending)) us \<noteq> []"
    using m p by (auto simp: filter_empty_conv)
  then show ?thesis unfolding us_def by (rule latest_nonempty)
qed


text \<open>
  Threading in general. Let a valid contact, whose classification returns the tags
  \<open>tags\<close>, resolve to a customer for whom \<open>findOpenTicketForCustomer\<close> finds the
  ticket \<open>t\<close>: one of the customer's open or pending tickets, none of which was updated
  later. Then the webhook answers with action "threaded" and \<open>t\<close>'s display id; the
  customer's message is appended for \<open>t\<close>; in the store \<open>t\<close> has as tags the union
  of its tags and \<open>tags\<close>, status open and the time of the request, and no ticket is
  added. A second such contact that resolves to the same customer is threaded as well,
  and after it the customer owns the tickets it owned at the start.
\<close>

lemma threading_when_classified:
  assumes valid: "\<not> falsy (f_first_name req)" "\<not> falsy (f_email req)" "\<not> falsy (f_message req)"
    and cls: "generateAutoTags (str_or (f_purpose req) ''Other'') (str_or (f_message req) []) = Inr tags"
    and res: "fst (findOrCreateCustomer (quiet n k) s (str_or (f_email req) []) (f_phone req) (form_name req)) = Inr r"
    and op: "findOpenTicketForCustomer s (c_id (res_customer r)) = Some t"
    and valid2: "\<not> falsy (f_first_name req2)" "\<not> falsy (f_email req2)" "\<not> falsy (f_message req2)"
    and cls2: "generateAutoTags (str_or (f_purpose req2) ''Other'') (str_or (f_message req2) []) = Inr tags2"
    and res2: "fst (findOrCreateCustomer (quiet n2 k2) (snd (webhook_contact_form (quiet n k) s req))
                      (str_or (f_email req2) []) (f_phone req2) (form_name req2)) = Inr r2"
    and same: "c_id (res_customer r2) = c_id (res_customer r)"
  shows "t \<in> set (tickets s) \<and> t_customer_id t = c_id (res_customer r)
       \<and> (t_status t = Open \<or> t_status t = Pending)
       \<and> (\<forall>u \<in> set (tickets s). t_customer_id u = c_id (res_customer r)
             \<and> (t_status u = Open \<or> t_status u = Pending) \<longrightarrow> t_updated_at u \<le> t_updated_at t)
       \<and> fst (webhook_contact_form (quiet n k) s req)
           = Status201 \<lparr>ticket_id = t_ticket_id t, action = ''threaded'', customer_match = matchType r,
                        possible_duplicate = map_option (\<lambda>c. (c_id c, c_name c, c_email c)) (possibleMatch r)\<rparr>
       \<and> (\<exists>merged. tickets (snd (webhook_contact_form (quiet n k) s req))
           = map (\<lambda>u. if t_id u = t_id t
                        then u\<lparr>t_ai_tags := Some merged, t_status := Open, t_updated_at := n\<rparr>
                        else u) (tickets s)
           \<and> set merged = (case t_ai_tags t of None \<Rightarrow> {} | Some xs \<Rightarrow> set xs) \<union> set tags)
       \<and> messages (snd (webhook_contact_form (quiet n k) s req))
           = messages s @ [\<lparr>m_ticket_id = t_id t, m_sender_type = FromCustomer, m_sender_name = form_name req,
                          m_content = str_or (f_message req) [],
                          m_metadata = Some
                            \<lparr>md_purpose = f_purpose req, md_phone = f_phone req,
                             md_attachment = (if truthy (f_attachment_info req) then f_attachment_info req else None),
                             md_submitted_at =
                               (case f_submitted_at req of
                                  None \<Rightarrow> Clock n
                                | Some v \<Rightarrow> if v = [] then Clock n else Given v),
                             md_threaded = True, md_reopened = False\<rparr>\<rparr>]
       \<and> map t_id (tickets (snd (webhook_contact_form (quiet n k) s req))) = map t_id (tickets s)
       \<and> (\<exists>res. fst (webhook_contact_form (quiet n2 k2) (snd (webhook_contact_form (quiet n k) s req)) req2)
                   = Status201 res \<and> action res = ''threaded'')
       \<and> map t_id (filter (\<lambda>u. t_customer_id u = c_id (res_customer r))
             (tickets (snd (webhook_contact_form (quiet n2 k2)
                              (snd (webhook_contact_form (quiet n k) s req)) req2))))
           = map t_id (filter (\<lambda>u. t_customer_id u = c_id (res_customer r)) (tickets s))"
proof -
  define cid where "cid = c_id (res_customer r)"
  define s1 where "s1 = snd (webhook_contact_form (quiet n k) s req)"
  define s2 where "s2 = snd (webhook_contact_form (quiet n2 k2) s1 req2)"
  define merged where "merged = set_list (or_empty (t_ai_tags t) @ tags)"
  note step1 = threading_step [OF valid cls res op]
  have t: "t \<in> set (tickets s) \<and> t_customer_id t = cid \<and> (t_status t = Open \<or> t_status t = Pending)"
    unfolding cid_def using findOpenTicket_found [OF op] .
  have newest: "\<forall>u \<in> set (tickets s). t_customer_id u = cid
             \<and> (t_status u = Open \<or> t_status u = Pending) \<longrightarrow> t_updated_at u \<le> t_updated_at t"
    using latest_newest [OF op [unfolded findOpenTicketForCustomer_def]]
    by (auto simp: cid_def)
  have r1: "fst (webhook_contact_form (quiet n k) s req)
           = Status201 \<lparr>ticket_id = t_ticket_id t, action = ''threaded'', customer_match = matchType r,
                        possible_duplicate = map_option (\<lambda>c. (c_id c, c_name c, c_email c)) (possibleMatch r)\<rparr>"
    using step1(1) .
  have tk1: "tickets s1 = map (\<lambda>u. if t_id u = t_id t then retag_and_open (quiet n k) t tags u else u) (tickets s)"
    unfolding s1_def using step1(2) .
  have tk1': "tickets s1 = map (\<lambda>u. if t_id u = t_id t
                        then u\<lparr>t_ai_tags := Some merged, t_status := Open, t_updated_at := n\<rparr>
                        else u) (tickets s)"
    unfolding tk1 merged_def by (simp add: retag_and_open_def quiet_def)
  have tagset: "set merged = (case t_ai_tags t of None \<Rightarrow> {} | Some xs \<Rightarrow> set xs) \<union> set tags"
    unfolding merged_def by (simp add: set_set_list or_empty_def split: option.splits)
  have retagged: "\<exists>merged. tickets s1
           = map (\<lambda>u. if t_id u = t_id t
                        then u\<lparr>t_ai_tags := Some merged, t_status := Open, t_updated_at := n\<rparr>
                        else u) (tickets s)
           \<and> set merged = (case t_ai_tags t of None \<Rightarrow> {} | Some xs \<Rightarrow> set xs) \<union> set tags"
    using tk1' tagset by blast
  have ms1: "messages s1 = messages s @ [\<lparr>m_ticket_id = t_id t, m_sender_type = FromCustomer, m_sender_name = form_name req,
                          m_content = str_or (f_message req) [],
                          m_metadata = Some
                            \<lparr>md_purpose = f_purpose req, md_phone = f_phone req,
                             md_attachment = (if truthy (f_attachment_info req) then f_attachment_info req else None),
                             md_submitted_at =
                               (case f_submitted_at req of
                                  None \<Rightarrow> Clock n
                                | Some v \<Rightarrow> if v = [] then Clock n else Given v),
                             md_threaded = True, md_reopened = False\<rparr>\<rparr>]"
    unfolding s1_def step1(3) customer_message_def
    by (simp add: quiet_def split: option.splits)
  have ids1: "map t_id (tickets s1) = map t_id (tickets s)"
    unfolding tk1 by (induction "tickets s") (auto simp: retag_keeps comp_def cong: map_cong)
  have own1: "map t_id (filter (\<lambda>u. t_customer_id u = cid) (tickets s1))
                = map t_id (filter (\<lambda>u. t_customer_id u = cid) (tickets s))"
    unfolding tk1 by (rule owned_after_retag)
  obtain t' where op2: "findOpenTicketForCustomer s1 cid = Some t'"
    unfolding findOpenTicketForCustomer_def tk1
    using still_open_after [of t "tickets s" cid "quiet n k" tags] t by blast
  have res2': "fst (findOrCreateCustomer (quiet n2 k2) s1 (str_or (f_email req2) []) (f_phone req2) (form_name req2)) = Inr r2"
    unfolding s1_def using res2 .
  have op2': "findOpenTicketForCustomer s1 (c_id (res_customer r2)) = Some t'"
    using op2 same by (simp add: cid_def)
  note step2 = threading_step [OF valid2 cls2 res2' op2']
  have r2: "\<exists>res. fst (webhook_contact_form (quiet n2 k2) s1 req2) = Status201 res \<and> action res = ''threaded''"
    using step2(1) by simp
  have own2: "map t_id (filter (\<lambda>u. t_customer_id u = cid) (tickets s2))
                = map t_id (filter (\<lambda>u. t_customer_id u = cid) (tickets s1))"
    unfolding s2_def step2(2) by (rule owned_after_retag)
  show ?thesis
    using t newest r1 retagged ms1 ids1 r2 own1 own2
    unfolding cid_def s1_def s2_def by simp
qed

text \<open>The response of the webhook never carries an action other than these two.\<close>

lemma webhook_action_values:
  "fst (webhook_contact_form e s req) = Status201 res \<Longrightarrow> action res = ''threaded'' \<or> action res = ''created''"
  by (auto simp: webhook_contact_form_def Let_def split: if_splits prod.splits sum.splits)

lemma recentClosed_same_tickets:
  "tickets s1 = tickets s \<Longrightarrow> recentClosed s1 cid = recentClosed s cid"
  by (simp add: recentClosed_def)

text \<open>The reopening branch in general: what it writes, and what it reports.\<close>

lemma reopening_step:
  assumes valid: "\<not> falsy (f_first_name req)" "\<not> falsy (f_email req)" "\<not> falsy (f_message req)"
    and cls: "generateAutoTags (str_or (f_purpose req) ''Other'') (str_or (f_message req) []) = Inr tags"
    and res: "fst (findOrCreateCustomer (quiet n k) s (str_or (f_email req) []) (f_phone req) (form_name req)) = Inr r"
    and none_open: "findOpenTicketForCustomer s (c_id (res_customer r)) = None"
    and closed: "recentClosed s (c_id (res_customer r)) = Some t"
    and recent: "n - t_updated_at t < 24 * hour"
  shows "fst (webhook_contact_form (quiet n k) s req)
           = Status201 \<lparr>ticket_id = t_ticket_id t, action = ''created'', customer_match = matchType r,
                        possible_duplicate = map_option (\<lambda>c. (c_id c, c_name c, c_email c)) (possibleMatch r)\<rparr>
     \<and> tickets (snd (webhook_contact_form (quiet n k) s req))
           = map (\<lambda>u. if t_id u = t_id t
                        then retag_and_open (quiet n k) t tags u
                        else u) (tickets s)
     \<and> messages (snd (webhook_contact_form (quiet n k) s req))
           = messages s @ [customer_message (quiet n k) req (form_name req) (t_id t) False True,
                           reopen_notice (t_id t)]"
proof -
  let ?fc = "findOrCreateCustomer (quiet n k) s (str_or (f_email req) []) (f_phone req) (form_name req)"
  have q: "concurrent (quiet n k) s = s" by (simp add: quiet_def)
  obtain s1 where fc: "?fc = (Inr r, s1)" using res by (cases ?fc) auto
  have tk: "tickets s1 = tickets s"
    using findOrCreateCustomer_tickets [OF q, of "str_or (f_email req) []" "f_phone req" "form_name req"] fc
    by simp
  have ms: "messages s1 = messages s"
    using findOrCreateCustomer_messages [OF q, of "str_or (f_email req) []" "f_phone req" "form_name req"] fc
    by simp
  have op1: "findOpenTicketForCustomer s1 (c_id (res_customer r)) = None"
    using findOpenTicket_same_tickets [OF tk] none_open by simp
  have cl1: "recentClosed s1 (c_id (res_customer r)) = Some t"
    using recentClosed_same_tickets [OF tk] closed by simp
  have recent': "now (quiet n k) - t_updated_at t < 24 * 60 * 60 * 1000"
    using recent by (simp add: quiet_def hour_def)
  have run: "webhook_contact_form (quiet n k) s req
     = (Status201 \<lparr>ticket_id = t_ticket_id t, action = ''created'', customer_match = matchType r,
                        possible_duplicate = map_option (\<lambda>c. (c_id c, c_name c, c_email c)) (possibleMatch r)\<rparr>,
        update_ticket (t_id t)
          (retag_and_open (quiet n k) t tags)
          (insert_message (reopen_notice (t_id t))
             (insert_message (customer_message (quiet n k) req (form_name req) (t_id t) False True) s1)))"
    using valid cls fc op1 cl1 recent' by (simp add: webhook_contact_form_def route_contact_def Let_def)
  show ?thesis
    unfolding run by (simp add: update_ticket_def insert_message_def tk ms)
qed

text \<open>
  C9: Ann has one ticket, which is open, and no message yet. Her contact with the
  purpose "constructor" is valid, yet it is not threaded: \<open>generateAutoTags\<close> guards the
  table of purposes with \<^verbatim>\<open>if (purposeTags[purpose])\<close>, which also finds the members
  every object inherits, and spreading such a member throws. The webhook answers with
  status 500; no message is appended and the ticket keeps its tags and its time. The
  same contact with the purpose "Billing" is threaded as the claim says: the message is
  appended to the ticket, whose tags become the union of its own and the new ones.
\<close>

theorem inherited_purpose_is_not_threaded:
  "findOpenTicketForCustomer (ann_store Open 0) (c_id ann) = Some (ann_ticket Open 0)
   \<and> truthy (f_first_name ((contact ''Ann'' ''Lee'' ''Ann@X.com'' None ''where is my order?'')\<lparr>f_purpose := Some ''constructor''\<rparr>))
   \<and> truthy (f_email ((contact ''Ann'' ''Lee'' ''Ann@X.com'' None ''where is my order?'')\<lparr>f_purpose := Some ''constructor''\<rparr>))
   \<and> truthy (f_message ((contact ''Ann'' ''Lee'' ''Ann@X.com'' None ''where is my order?'')\<lparr>f_purpose := Some ''constructor''\<rparr>))
   \<and> generateAutoTags ''constructor'' ''where is my order?'' = Inl TypeError
   \<and> webhook_contact_form (quiet hour 7) (ann_store Open 0)
        ((contact ''Ann'' ''Lee'' ''Ann@X.com'' None ''where is my order?'')\<lparr>f_purpose := Some ''constructor''\<rparr>)
       = (Status500 TypeError, ann_store Open 0)
   \<and> messages (ann_store Open 0) = []
   \<and> map (\<lambda>u. (t_ai_tags u, t_status u, t_updated_at u)) (tickets (ann_store Open 0))
       = [(Some [''General inquiry''], Open, 0)]
   \<and> fst (webhook_contact_form (quiet hour 7) (ann_store Open 0)
        ((contact ''Ann'' ''Lee'' ''Ann@X.com'' None ''where is my order?'')\<lparr>f_purpose := Some ''Billing''\<rparr>))
       = Status201 \<lparr>ticket_id = ''TIX-1007'', action = ''threaded'', customer_match = ''email'',
                    possible_duplicate = None\<rparr>
   \<and> messages (snd (webhook_contact_form (quiet hour 7) (ann_store Open 0)
        ((contact ''Ann'' ''Lee'' ''Ann@X.com'' None ''where is my order?'')\<lparr>f_purpose := Some ''Billing''\<rparr>)))
       = [\<lparr>m_ticket_id = 1, m_sender_type = FromCustomer, m_sender_name = ''Ann Lee'',
           m_content = ''where is my order?'',
           m_metadata = Some \<lparr>md_purpose = Some ''Billing'', md_phone = None, md_attachment = None,
                              md_submitted_at = Clock hour, md_threaded = True,
                              md_reopened = False\<rparr>\<rparr>]
   \<and> map (\<lambda>u. (t_id u, t_ai_tags u, t_status u, t_updated_at u))
        (tickets (snd (webhook_contact_form (quiet hour 7) (ann_store Open 0)
           ((contact ''Ann'' ''Lee'' ''Ann@X.com'' None ''where is my order?'')\<lparr>f_purpose := Some ''Billing''\<rparr>))))
       = [(1, Some [''General inquiry'', ''Billing inquiry'', ''Tracking question''], Open, hour)]"
  by code_simp

text \<open>
  C2: a customer whose only ticket was resolved 23 hours ago sends a new contact. The
  handler takes the reopening branch: the message and the system's notice are appended
  to that ticket, its status becomes open, and no ticket is added. But the response
  carries action "created", not "reopened": the action is computed as
  \<^verbatim>\<open>openTicket ? 'threaded' : 'created'\<close>, which leaves the reopening branch out. After
  25 hours, and after exactly 24, a new ticket is created and "created" is right.
\<close>

theorem reopen_is_reported_as_created:
  "fst (webhook_contact_form (quiet (23 * hour) 7) (ann_store Resolved 0)
          (contact ''Ann'' ''Lee'' ''Ann@X.com'' None ''any news?''))
     = Status201 \<lparr>ticket_id = ''TIX-1007'', action = ''created'', customer_match = ''email'',
                  possible_duplicate = None\<rparr>
   \<and> tickets (snd (webhook_contact_form (quiet (23 * hour) 7) (ann_store Resolved 0)
          (contact ''Ann'' ''Lee'' ''Ann@X.com'' None ''any news?'')))
     = [ann_ticket Open (23 * hour)]
   \<and> map (\<lambda>m. (m_ticket_id m, m_sender_type m, m_content m))
        (messages (snd (webhook_contact_form (quiet (23 * hour) 7) (ann_store Resolved 0)
          (contact ''Ann'' ''Lee'' ''Ann@X.com'' None ''any news?''))))
     = [(1, FromCustomer, ''any news?''),
        (1, FromSystem, ''Ticket reopened - customer sent a follow-up message.'')]
   \<and> fst (webhook_contact_form (quiet (25 * hour) 8) (ann_store Closed 0)
          (contact ''Ann'' ''Lee'' ''Ann@X.com'' None ''any news?''))
     = Status201 \<lparr>ticket_id = ''TIX-1008'', action = ''created'', customer_match = ''email'',
                  possible_duplicate = None\<rparr>
   \<and> map t_status (tickets (snd (webhook_contact_form (quiet (25 * hour) 8) (ann_store Closed 0)
          (contact ''Ann'' ''Lee'' ''Ann@X.com'' None ''any news?''))))
     = [Closed, Open]
   \<and> map t_status (tickets (snd (webhook_contact_form (quiet (24 * hour) 8) (ann_store Resolved 0)
          (contact ''Ann'' ''Lee'' ''Ann@X.com'' None ''any news?''))))
     = [Resolved, Open]"
  by code_simp

text \<open>
  C5: a customer's ticket count does not stay equal to the number of tickets it owns.
  Ann owns one ticket, which is open, and her count is one. Her next contact is threaded
  onto that ticket, so she still owns one ticket; but \<open>findOrCreateCustomer\<close> has
  incremented the count to two before the routing decides that no ticket is created.
\<close>

theorem ticket_count_drifts_when_threading:
  "c_ticket_count ann = int (length (tickets_owned (ann_store Open 0) (c_id ann)))
   \<and> fst (webhook_contact_form (quiet hour 7) (ann_store Open 0)
            (contact ''Ann'' ''Lee'' ''Ann@X.com'' None ''any news?''))
       = Status201 \<lparr>ticket_id = ''TIX-1007'', action = ''threaded'', customer_match = ''email'',
                    possible_duplicate = None\<rparr>
   \<and> map c_ticket_count (customers (snd (webhook_contact_form (quiet hour 7) (ann_store Open 0)
            (contact ''Ann'' ''Lee'' ''Ann@X.com'' None ''any news?'')))) = [2]
   \<and> length (tickets_owned (snd (webhook_contact_form (quiet hour 7) (ann_store Open 0)
            (contact ''Ann'' ''Lee'' ''Ann@X.com'' None ''any news?''))) (c_id ann)) = 1"
  by code_simp

end
